theory Spec2Isabelle
  imports Main "HOL-Library.Word" "HOL-Library.Signed_Division"
begin

unbundle bit_operations_syntax

section \<open>Machine types\<close>

text \<open>
  The kernel this file belongs to is built for 64-bit little-endian machines:
  \<open>int\<close> and \<open>unsigned int\<close> are 32 bits wide, \<open>long\<close>, \<open>unsigned long\<close>
  and \<open>u64\<close> are 64 bits wide.  Addition, subtraction and multiplication wrap around
  (the kernel is compiled with wrapping signed arithmetic); a signed value is read with
  \<open>sint\<close>, an unsigned one with \<open>uint\<close> or \<open>unat\<close>.
\<close>

type_synonym u8 = "8 word"
type_synonym u32 = "32 word"
type_synonym u64 = "64 word"
type_synonym s64 = "64 word"

definition LONG_MAX :: s64 where
  "LONG_MAX = 0x7FFFFFFFFFFFFFFF"

text \<open>Division of two \<open>long\<close> values: C truncates the quotient towards zero.\<close>

definition long_div :: "s64 \<Rightarrow> s64 \<Rightarrow> s64" where
  "long_div a b = word_of_int (sint a sdiv sint b)"

datatype errno = ENOMEM | EINVAL | ERANGE | ENODATA

section \<open>Declarations the file takes from the rest of the kernel tree\<close>

datatype token = Opt_ext_delay_update_time | Opt_ext_wb_nice | Opt_ext_err

text \<open>
  \<open>extend.c\<close> uses constants of \<open>ext4.h\<close>, \<open>linux/fs.h\<close> and \<open>asm/page.h\<close> and string
  helpers of \<open>lib/\<close> whose text is not part of the file.  They are parameters of the
  model: every function below takes a \<open>kernel\<close> record, and every theorem holds for
  each value of it (under the hypotheses the theorem states).
  \<^item> \<open>match_strdup\<close> duplicates the option substring; \<open>None\<close> is the failed allocation.
  \<^item> \<open>match_token p table\<close> returns the token of the first pattern of \<open>table\<close> that
    \<open>p\<close> matches, and the text of the first argument (\<open>args[0]\<close>), \<open>None\<close> when
    \<open>args[0].from\<close> stays \<open>NULL\<close>.
  \<^item> \<open>match_u64\<close> reads the argument as an unsigned 64-bit number; \<open>None\<close> is its
    non-zero (error) return.
  \<^item> \<open>kstrtoul\<close> (called with base 0) returns the number or the error code.
  \<^item> \<open>simple_strtoul\<close> (called with base 0) returns the number read from the front
    of the string; it has no error return, and returns 0 where no digit can be read.
\<close>

record kernel =
  PAGE_SIZE :: u64
  S_ATIME :: u32
  S_MTIME :: u32
  S_CTIME :: u32
  S_VERSION :: u32
  EXT4_EXT_OPT_VALID :: u32
  EXT4_EXT_OPT_DELAY_UPDATE_TIME :: u32
  EXT4_EXT_OPT_WB_NICE :: u32
  EXT4_EXT_DEFAULT_DELAY_UPDATE_TIME :: u32
  match_strdup :: "string \<Rightarrow> string option"
  match_token :: "string \<Rightarrow> (token \<times> string option) list \<Rightarrow> token \<times> string option"
  match_u64 :: "string \<Rightarrow> u64 option"
  skip_spaces :: "string \<Rightarrow> string"
  kstrtoul :: "string \<Rightarrow> errno + u64"
  simple_strtoul :: "string \<Rightarrow> u64"

section \<open>The per-volume configuration and the inode\<close>

text \<open>
  \<open>struct ext4_ext_sb_info\<close>: the fields the policies read.  \<open>s_mutex_init\<close> records
  that \<open>mutex_init\<close> ran on \<open>s_mutex\<close>.
\<close>

record ext4_ext_sb_info =
  s_opt :: u32
  s_delay_update_time :: u32
  s_wb_enable :: u32
  s_mutex_init :: bool

record timespec =
  tv_sec :: s64
  tv_nsec :: s64

text \<open>
  \<open>struct inode\<close>: the two stored timestamps and the extended attributes of the
  \<open>user\<close> name space, by name.
\<close>

record inode =
  i_ctime :: timespec
  i_mtime :: timespec
  i_xattr_user :: "string \<rightharpoonup> string"

section \<open>Timestamp coalescing\<close>

definition MSEC_PER_SEC :: s64 where
  "MSEC_PER_SEC = 1000"

definition NSEC_PER_MSEC :: s64 where
  "NSEC_PER_MSEC = 1000000"

text \<open>
  The value assigned to \<open>unsigned long elapse\<close>: the operands are \<open>long\<close>, so the
  difference is computed signed and then read as an unsigned number.
\<close>

definition elapse :: "timespec \<Rightarrow> timespec \<Rightarrow> u64" where
  "elapse old new =
     (tv_sec new - tv_sec old) * MSEC_PER_SEC +
     long_div (tv_nsec new - tv_nsec old) NSEC_PER_MSEC"

text \<open>\<open>elapse >= delay\<close>: \<open>delay\<close> is widened to \<open>unsigned long\<close>, the comparison is unsigned.\<close>

definition ext4_ext_should_update_time :: "timespec \<Rightarrow> timespec \<Rightarrow> u32 \<Rightarrow> bool" where
  "ext4_ext_should_update_time old new delay = (ucast delay \<le> elapse old new)"

text \<open>
  \<open>ext4_ext_update_time\<close>: \<open>True\<close> is the jump to \<open>update:\<close>, where
  \<open>generic_update_time\<close> applies the timestamp; \<open>False\<close> is \<open>return 0\<close>, the update is
  dropped.
\<close>

definition ext4_ext_update_time ::
  "kernel \<Rightarrow> ext4_ext_sb_info \<Rightarrow> inode \<Rightarrow> timespec \<Rightarrow> u32 \<Rightarrow> bool" where
  "ext4_ext_update_time K sebi ino tm flags =
     (let delay = s_delay_update_time sebi in
      if s_opt sebi AND EXT4_EXT_OPT_DELAY_UPDATE_TIME K = 0 then True
      else if delay = 0 then True
      else if flags AND S_VERSION K \<noteq> 0 then True
      else if flags AND S_ATIME K \<noteq> 0 then True
      else if flags AND S_CTIME K \<noteq> 0 \<and>
              ext4_ext_should_update_time (i_ctime ino) tm delay then True
      else if flags AND S_MTIME K \<noteq> 0 \<and>
              ext4_ext_should_update_time (i_mtime ino) tm delay then True
      else False)"

section \<open>Writeback throttling\<close>

text \<open>
  Modelled from the spec: \<open>ext4_xattr_get\<close> of \<open>xattr.c\<close> is not part of the file.  It is
  the storage engine's \<open>get(inode, namespace, name, buffer, maxLength) -> byteCount | error\<close>:
  the attribute's length and the bytes copied into the buffer.  Without a buffer
  (\<open>NULL\<close>, size 0) only the length is returned; a buffer that is too small is an error.
\<close>

definition ext4_xattr_get :: "inode \<Rightarrow> string \<Rightarrow> nat option \<Rightarrow> errno + (nat \<times> string)" where
  "ext4_xattr_get ino name buffer_size =
     (case i_xattr_user ino name of
        None \<Rightarrow> Inl ENODATA
      | Some v \<Rightarrow>
          (case buffer_size of
             None \<Rightarrow> Inr (length v, [])
           | Some n \<Rightarrow> if n < length v then Inl ERANGE else Inr (length v, v)))"

text \<open>The C string held by a buffer: the bytes before the first NUL.\<close>

definition c_string :: "string \<Rightarrow> string" where
  "c_string buf = takeWhile (\<lambda>c. c \<noteq> CHR 0x00) buf"

text \<open>
  Modelled from the spec: \<open>roundup_pow_of_two\<close> of \<open>linux/log2.h\<close> is not part of the
  file; it rounds up to the next power of two, as \<open>1UL << fls_long(n - 1)\<close>, where
  \<open>fls_long\<close> is the position of the highest set bit, counted from 1, and 0 for 0.
\<close>

fun fls :: "nat \<Rightarrow> nat" where
  "fls n = (if n = 0 then 0 else Suc (fls (n div 2)))"

definition fls_long :: "u64 \<Rightarrow> nat" where
  "fls_long l = fls (unat l)"

definition roundup_pow_of_two :: "u64 \<Rightarrow> u64" where
  "roundup_pow_of_two n = push_bit (fls_long (n - 1)) 1"

text \<open>\<open>round_down(x, y)\<close> of \<open>linux/kernel.h\<close>: \<open>x & ~(y - 1)\<close>, for \<open>y\<close> a power of two.\<close>

definition round_down :: "u64 \<Rightarrow> u64 \<Rightarrow> u64" where
  "round_down x y = x AND NOT (y - 1)"

definition EXT4_EXT_MIN_WB_PAGES :: "kernel \<Rightarrow> u64" where
  "EXT4_EXT_MIN_WB_PAGES K = 0x400000 div PAGE_SIZE K"

text \<open>
  \<open>ext4_ext_limit_writeback\<close>: the new value of \<open>wbc->nr_to_write\<close>, which is also the
  value returned.  The first \<open>ext4_xattr_get\<close> asks for the size, the second one fills
  \<open>buf\<close>, which ends in the NUL written at \<open>buf[size]\<close>; its return value is not looked
  at.  \<open>nice\<close> is a \<open>long\<close>: the tests \<open>nice <= 0\<close> and \<open>nice > 255\<close> are signed.  The divisor
  is an \<open>unsigned long\<close>, so the division and the rounding are unsigned.  The trace
  event has no effect on the result.
\<close>

definition ext4_ext_limit_writeback ::
  "kernel \<Rightarrow> ext4_ext_sb_info \<Rightarrow> inode \<Rightarrow> s64 \<Rightarrow> s64" where
  "ext4_ext_limit_writeback K sebi ino nr_to_write =
     (if \<not> (s_opt sebi AND EXT4_EXT_OPT_WB_NICE K \<noteq> 0 \<and> s_wb_enable sebi \<noteq> 0)
      then nr_to_write
      else if nr_to_write = LONG_MAX then nr_to_write
      else
        (case ext4_xattr_get ino ''wbnice'' None of
           Inl err \<Rightarrow> nr_to_write
         | Inr (size', _) \<Rightarrow>
             if size' = 0 \<or> 256 \<le> size' then nr_to_write
             else
               (let buf = (case ext4_xattr_get ino ''wbnice'' (Some 256) of
                             Inr (_, bytes) \<Rightarrow> bytes
                           | Inl _ \<Rightarrow> []);
                    nice = simple_strtoul K (c_string buf)
                in if nice \<le>s 0 then nr_to_write
                   else
                     (let nice' = (if 255 <s nice then 255 else nice);
                          pages = nr_to_write div roundup_pow_of_two nice'
                      in round_down (pages + EXT4_EXT_MIN_WB_PAGES K)
                           (EXT4_EXT_MIN_WB_PAGES K)))))"

section \<open>Mount options\<close>

text \<open>The table \<open>ext_tokens\<close>; its last entry, with the pattern \<open>NULL\<close>, matches every token.\<close>

definition ext_tokens :: "(token \<times> string option) list" where
  "ext_tokens =
     [(Opt_ext_delay_update_time, Some ''delayupdatetime=%d''),
      (Opt_ext_wb_nice, Some ''wbnice''),
      (Opt_ext_err, None)]"

text \<open>The messages \<open>ext4_msg\<close> writes to the kernel log.\<close>

datatype msg = Out_of_memory | Not_supported string

text \<open>
  What a call leaves behind: the configuration, the value of \<open>ret\<close> (\<open>None\<close> is 0,
  \<open>Some e\<close> is \<open>-e\<close>) and the log.
\<close>

record parse_state =
  ps_sebi :: ext4_ext_sb_info
  ps_ret :: "errno option"
  ps_log :: "msg list"

text \<open>
  The tokens that the calls of \<open>strsep(&options, ";")\<close> return, in order, until
  \<open>options\<close> is \<open>NULL\<close>: the pieces between the semicolons, the empty ones included.
\<close>

fun strsep_all :: "string \<Rightarrow> string list" where
  "strsep_all [] = [[]]"
| "strsep_all (c # s) =
     (if c = CHR '';'' then [] # strsep_all s
      else (case strsep_all s of
              t # ts \<Rightarrow> (c # t) # ts
            | [] \<Rightarrow> [[c]]))"

text \<open>
  The \<open>switch\<close> on one token \<open>p\<close>: \<open>Inr\<close> is \<open>break\<close>, the loop goes on with the next
  token; \<open>Inl\<close> is \<open>goto out\<close>.  The 64-bit value is cut to the width of
  \<open>s_delay_update_time\<close>.
\<close>

definition handle_token ::
  "kernel \<Rightarrow> string \<Rightarrow> string \<Rightarrow> parse_state \<Rightarrow> parse_state + parse_state" where
  "handle_token K opt p st =
     (case match_token K p ext_tokens of
        (Opt_ext_delay_update_time, args) \<Rightarrow>
          (let sebi = (ps_sebi st)
                 \<lparr>s_opt := s_opt (ps_sebi st) OR EXT4_EXT_OPT_DELAY_UPDATE_TIME K,
                  s_delay_update_time := EXT4_EXT_DEFAULT_DELAY_UPDATE_TIME K\<rparr>
           in case args of
                None \<Rightarrow> Inr (st\<lparr>ps_sebi := sebi\<rparr>)
              | Some a \<Rightarrow>
                  (case match_u64 K a of
                     None \<Rightarrow> Inr (st\<lparr>ps_sebi := sebi, ps_ret := Some EINVAL\<rparr>)
                   | Some val \<Rightarrow>
                       Inr (st\<lparr>ps_sebi := sebi\<lparr>s_delay_update_time := ucast val\<rparr>\<rparr>)))
      | (Opt_ext_wb_nice, args) \<Rightarrow>
          Inr (st\<lparr>ps_sebi := (ps_sebi st)
                 \<lparr>s_opt := s_opt (ps_sebi st) OR EXT4_EXT_OPT_WB_NICE K,
                  s_wb_enable := 1\<rparr>\<rparr>)
      | (Opt_ext_err, args) \<Rightarrow>
          Inl (st\<lparr>ps_ret := Some EINVAL, ps_log := ps_log st @ [Not_supported opt]\<rparr>))"

text \<open>The \<open>while\<close> loop over the tokens; an empty token is skipped.\<close>

fun parse_options :: "kernel \<Rightarrow> string \<Rightarrow> string list \<Rightarrow> parse_state \<Rightarrow> parse_state" where
  "parse_options K opt [] st = st"
| "parse_options K opt (p # ps) st =
     (if p = [] then parse_options K opt ps st
      else (case handle_token K opt p st of
              Inl st' \<Rightarrow> st'
            | Inr st' \<Rightarrow> parse_options K opt ps st'))"

text \<open>The statements before the copy of the options: the valid flag and the mutex.\<close>

definition mount_opt_begin :: "kernel \<Rightarrow> ext4_ext_sb_info \<Rightarrow> bool \<Rightarrow> parse_state" where
  "mount_opt_begin K sebi is_remount =
     \<lparr>ps_sebi = sebi\<lparr>s_opt := s_opt sebi OR EXT4_EXT_OPT_VALID K,
                     s_mutex_init := (if is_remount then s_mutex_init sebi else True)\<rparr>,
      ps_ret = None,
      ps_log = []\<rparr>"

text \<open>
  \<open>ext4_handle_ext_mount_opt\<close>; \<open>opt\<close> is only printed, \<open>param\<close> is the option text.
  The arguments \<open>ptoken\<close>, \<open>journal_devnum\<close> and \<open>journal_ioprio\<close> are not used.
\<close>

definition ext4_handle_ext_mount_opt ::
  "kernel \<Rightarrow> ext4_ext_sb_info \<Rightarrow> string \<Rightarrow> string \<Rightarrow> bool \<Rightarrow> parse_state" where
  "ext4_handle_ext_mount_opt K sebi opt param is_remount =
     (let st = mount_opt_begin K sebi is_remount in
      case match_strdup K param of
        None \<Rightarrow> st\<lparr>ps_ret := Some ENOMEM, ps_log := [Out_of_memory]\<rparr>
      | Some options \<Rightarrow> parse_options K opt (strsep_all options) st)"

section \<open>The attribute files\<close>

text \<open>
  \<open>struct ext4_ext_attr\<close>.  \<open>ea_offset\<close> and \<open>ea_len\<close> are the offset and the size in
  bytes of the field inside \<open>struct ext4_ext_sb_info\<close>, as the macro \<open>EXT4_EXT_ATTR\<close>
  computes them; \<open>ea_mode\<close> is 0444 or 0644.
\<close>

record ext4_ext_attr =
  ea_name :: string
  ea_mode :: nat
  ea_offset :: nat
  ea_len :: nat
  ea_opts :: u32

text \<open>
  The accessors see the structure as bytes.  An \<open>unsigned long\<close> lies in memory with
  its lowest byte first (little-endian).
\<close>

fun word_bytes_n :: "nat \<Rightarrow> u64 \<Rightarrow> u8 list" where
  "word_bytes_n 0 w = []"
| "word_bytes_n (Suc n) w = ucast w # word_bytes_n n (drop_bit 8 w)"

definition word_bytes :: "u64 \<Rightarrow> u8 list" where
  "word_bytes w = word_bytes_n 8 w"

definition bytes_word :: "u8 list \<Rightarrow> u64" where
  "bytes_word bs = foldr (\<lambda>b w. ucast b OR push_bit 8 w) bs 0"

text \<open>
  \<open>memcpy(dst + d, src + s, n)\<close> on byte lists, for ranges that lie inside both lists
  (outside, the C code has no defined result).
\<close>

definition memcpy :: "u8 list \<Rightarrow> nat \<Rightarrow> u8 list \<Rightarrow> nat \<Rightarrow> nat \<Rightarrow> u8 list" where
  "memcpy dst d src s n = take d dst @ take n (drop s src) @ drop (d + n) dst"

text \<open>The decimal digits of a number, as \<open>%lu\<close> prints them.\<close>

fun decimal :: "nat \<Rightarrow> string" where
  "decimal n =
     (if n < 10 then [''0123456789'' ! n]
      else decimal (n div 10) @ [''0123456789'' ! (n mod 10)])"

text \<open>
  \<open>snprintf(buf, PAGE_SIZE, "%lu\n", val)\<close>: the text left in \<open>buf\<close>, at most
  \<open>PAGE_SIZE - 1\<close> characters.
\<close>

definition snprintf_lu :: "kernel \<Rightarrow> u64 \<Rightarrow> string" where
  "snprintf_lu K val = take (unat (PAGE_SIZE K) - 1) (decimal (unat val) @ [CHR 0x0A])"

text \<open>
  \<open>ext4_ext_attr_show\<close>: \<open>val\<close> starts as 0, its first \<open>ea_len\<close> bytes are overwritten by
  the field, and it is printed.  The mutex is taken and released around the copy.
\<close>

definition ext4_ext_attr_show :: "kernel \<Rightarrow> ext4_ext_attr \<Rightarrow> u8 list \<Rightarrow> string" where
  "ext4_ext_attr_show K ea sebi_bytes =
     (let val = bytes_word (memcpy (word_bytes 0) 0 sebi_bytes (ea_offset ea) (ea_len ea))
      in snprintf_lu K val)"

text \<open>
  \<open>ext4_ext_attr_store\<close>: the bytes of the structure afterwards, and the value returned,
  the error of \<open>kstrtoul\<close> or \<open>len\<close>.
\<close>

definition ext4_ext_attr_store ::
  "kernel \<Rightarrow> ext4_ext_attr \<Rightarrow> string \<Rightarrow> nat \<Rightarrow> u8 list \<Rightarrow> u8 list \<times> (errno + nat)" where
  "ext4_ext_attr_store K ea buf len sebi_bytes =
     (case kstrtoul K (skip_spaces K buf) of
        Inl err \<Rightarrow> (sebi_bytes, Inl err)
      | Inr val \<Rightarrow>
          (memcpy sebi_bytes (ea_offset ea) (word_bytes val) 0 (ea_len ea), Inr len))"

section \<open>A concrete kernel\<close>

text \<open>
  Modelled from the spec: the string helpers of \<open>lib/\<close> (\<open>simple_strtoul\<close>, \<open>kstrtoul\<close>,
  \<open>skip_spaces\<close>, \<open>match_token\<close>, \<open>match_u64\<close>, \<open>match_strdup\<close>) and the constants of the
  headers are not part of the file.  This section gives one instance of them, used
  only to evaluate the functions on concrete inputs; no theorem about all inputs
  depends on it.  The numbers are unsigned integers with the usual prefixes for the
  base (\<open>0x\<close> for 16, \<open>0\<close> for 8), the tokens are \<open>delayupdatetime=<integer>\<close> and
  \<open>wbnice\<close>.
\<close>

text \<open>A decimal digit, and white space as \<open>isspace\<close> of \<open>linux/ctype.h\<close> sees it.\<close>

definition isdigit :: "char \<Rightarrow> bool" where
  "isdigit c = (48 \<le> (of_char c :: nat) \<and> (of_char c :: nat) \<le> 57)"

definition isspace :: "char \<Rightarrow> bool" where
  "isspace c = (let n = (of_char c :: nat) in (9 \<le> n \<and> n \<le> 13) \<or> n = 32 \<or> n = 160)"

text \<open>The value of a digit or of a letter \<open>a..f\<close>, \<open>A..F\<close>; \<open>None\<close> for any other character.\<close>

definition digit_value :: "char \<Rightarrow> nat option" where
  "digit_value c =
     (let n = (of_char c :: nat) in
      if 48 \<le> n \<and> n \<le> 57 then Some (n - 48)
      else if 97 \<le> n \<and> n \<le> 102 then Some (n - 87)
      else if 65 \<le> n \<and> n \<le> 70 then Some (n - 55)
      else None)"

text \<open>
  Modelled from the spec: the digit loop of \<open>_parse_integer\<close> (\<open>lib/kstrtox.c\<close>), which
  stops at the first character that is not a digit of the base: the number read so
  far, not yet reduced to 64 bits, and the number of characters consumed.
\<close>

fun parse_integer :: "nat \<Rightarrow> string \<Rightarrow> nat \<Rightarrow> nat \<Rightarrow> nat \<times> nat" where
  "parse_integer base [] res rv = (res, rv)"
| "parse_integer base (c # s) res rv =
     (case digit_value c of
        None \<Rightarrow> (res, rv)
      | Some val \<Rightarrow>
          if base \<le> val then (res, rv)
          else parse_integer base s (res * base + val) (Suc rv))"

text \<open>
  Modelled from the spec: \<open>_parse_integer_fixup_radix\<close> for base 0, the standard
  prefixes: the base, and the number of characters of the prefix \<open>0x\<close> that are
  skipped.
\<close>

definition parse_integer_fixup_radix :: "string \<Rightarrow> nat \<times> nat" where
  "parse_integer_fixup_radix s =
     (case s of
        c0 # c1 # c2 # _ \<Rightarrow>
          if c0 = CHR ''0'' then
            (if (c1 = CHR ''x'' \<or> c1 = CHR ''X'') \<and> digit_value c2 \<noteq> None
             then (16, 2) else (8, 0))
          else (10, 0)
      | c0 # _ \<Rightarrow> if c0 = CHR ''0'' then (8, 0) else (10, 0)
      | [] \<Rightarrow> (10, 0))"

text \<open>The number read and the number of characters consumed, prefix included.\<close>

definition strtoull :: "string \<Rightarrow> nat \<times> nat" where
  "strtoull s =
     (let (base, skip) = parse_integer_fixup_radix s;
          (res, rv) = parse_integer base (drop skip s) 0 0
      in (res, skip + rv))"

text \<open>
  Modelled from the spec: \<open>simple_strtoul(s, NULL, 0)\<close>, the number at the front of the
  string, reduced to 64 bits; 0 when the string does not start with a digit.
\<close>

definition lib_simple_strtoul :: "string \<Rightarrow> u64" where
  "lib_simple_strtoul s = word_of_nat (fst (strtoull s))"

text \<open>
  Modelled from the spec: the number of characters \<open>simple_strtol\<close> consumes; a leading
  \<open>-\<close> counts.
\<close>

definition strtol_length :: "string \<Rightarrow> nat" where
  "strtol_length s =
     (case s of
        c # s' \<Rightarrow> if c = CHR ''-'' then Suc (snd (strtoull s')) else snd (strtoull s)
      | [] \<Rightarrow> 0)"

text \<open>
  Modelled from the spec: \<open>kstrtoul(s, 0, &val)\<close>, which is \<open>kstrtoull\<close> on a 64-bit
  machine: an optional \<open>+\<close>, at least one digit, an optional final newline and nothing
  else; \<open>-ERANGE\<close> when the number does not fit 64 bits, \<open>-EINVAL\<close> for any other
  failure.  \<open>match_u64\<close> is \<open>kstrtoull\<close> on the argument, with base 0.
\<close>

definition lib_kstrtoull :: "string \<Rightarrow> errno + u64" where
  "lib_kstrtoull s0 =
     (let s = (case s0 of c # s' \<Rightarrow> if c = CHR ''+'' then s' else s0 | [] \<Rightarrow> s0);
          (base, skip) = parse_integer_fixup_radix s;
          (res, rv) = parse_integer base (drop skip s) 0 0;
          rest = drop (skip + rv) s
      in if 2 ^ 64 \<le> res then Inl ERANGE
         else if rv = 0 then Inl EINVAL
         else if rest = [] \<or> rest = [CHR 0x0A] then Inr (word_of_nat res)
         else Inl EINVAL)"

definition lib_match_u64 :: "string \<Rightarrow> u64 option" where
  "lib_match_u64 s = (case lib_kstrtoull s of Inl _ \<Rightarrow> None | Inr v \<Rightarrow> Some v)"

definition lib_skip_spaces :: "string \<Rightarrow> string" where
  "lib_skip_spaces s = dropWhile isspace s"

text \<open>
  Modelled from the spec: \<open>match_one\<close> of \<open>lib/parser.c\<close>, for a pattern without
  conversion (compared as a whole) and for a pattern that ends in one \<open>%d\<close>: the text
  before \<open>%d\<close> is a prefix of the token, \<open>simple_strtol\<close> consumes at least one
  character, and nothing is left after it.  \<open>match_token\<close> tries the patterns of the
  table in order.
\<close>

definition match_one :: "string \<Rightarrow> string \<Rightarrow> (string option) option" where
  "match_one s p =
     (let lit = takeWhile (\<lambda>c. c \<noteq> CHR ''%'') p;
          conv = drop (length lit) p
      in if conv = [] then (if p = s then Some None else None)
         else if conv = ''%d'' \<and> take (length lit) s = lit then
           (let arg = drop (length lit) s; n = strtol_length arg
            in if n = 0 then None
               else if drop n arg = [] then Some (Some arg)
               else None)
         else None)"

fun lib_match_token :: "string \<Rightarrow> (token \<times> string option) list \<Rightarrow> token \<times> string option" where
  "lib_match_token s [] = (Opt_ext_err, None)"
| "lib_match_token s ((t, None) # table) = (t, None)"
| "lib_match_token s ((t, Some p) # table) =
     (case match_one s p of
        Some arg \<Rightarrow> (t, arg)
      | None \<Rightarrow> lib_match_token s table)"

text \<open>
  Modelled from the spec: the constants.  The flag values are those of \<open>linux/fs.h\<close>,
  the page has 4096 bytes (a chunk of 1024 pages, as in the spec's scenario).  The
  \<open>EXT4_EXT_\<close> values stand for the ones of \<open>ext4.h\<close>, which the spec does not give: one
  bit for each option, and a default delay of 1000 ms.
\<close>

definition kernel_x86_64 :: kernel where
  "kernel_x86_64 =
     \<lparr> PAGE_SIZE = 4096,
       S_ATIME = 1, S_MTIME = 2, S_CTIME = 4, S_VERSION = 8,
       EXT4_EXT_OPT_VALID = 1,
       EXT4_EXT_OPT_DELAY_UPDATE_TIME = 2,
       EXT4_EXT_OPT_WB_NICE = 4,
       EXT4_EXT_DEFAULT_DELAY_UPDATE_TIME = 1000,
       match_strdup = Some,
       match_token = lib_match_token,
       match_u64 = lib_match_u64,
       skip_spaces = lib_skip_spaces,
       kstrtoul = lib_kstrtoull,
       simple_strtoul = lib_simple_strtoul \<rparr>"

section \<open>Inputs used in the examples\<close>

text \<open>
  A timestamp as the kernel keeps it: the nanoseconds lie in \<open>0 .. 999999999\<close>, and
  the seconds are far from the ends of \<open>long\<close>, so that no difference of two
  timestamps overflows.
\<close>

definition timespec_valid :: "timespec \<Rightarrow> bool" where
  "timespec_valid ts =
     (tv_nsec ts < 1000000000 \<and> - (2 ^ 51) \<le> sint (tv_sec ts) \<and> sint (tv_sec ts) \<le> 2 ^ 51)"

text \<open>
  The elapsed milliseconds in the spec's words, as an integer:
  \<open>(requested.seconds - current.seconds) * 1000 + (requested.nanos - current.nanos) / 1_000_000\<close>,
  truncating toward zero.  It is negative when the requested timestamp lies a
  millisecond or more before the stored one.
\<close>

definition elapsed_ms :: "timespec \<Rightarrow> timespec \<Rightarrow> int" where
  "elapsed_ms current requested =
     (sint (tv_sec requested) - sint (tv_sec current)) * 1000 +
     (sint (tv_nsec requested) - sint (tv_nsec current)) sdiv 1000000"

text \<open>\<open>a\<close> is earlier than \<open>b\<close>.\<close>

definition timespec_before :: "timespec \<Rightarrow> timespec \<Rightarrow> bool" where
  "timespec_before a b =
     (tv_sec a <s tv_sec b \<or> (tv_sec a = tv_sec b \<and> tv_nsec a < tv_nsec b))"

text \<open>Coalescing enabled with a delay of 1000 ms; throttling off.\<close>

definition sebi_delay :: ext4_ext_sb_info where
  "sebi_delay = \<lparr>s_opt = 3, s_delay_update_time = 1000, s_wb_enable = 0, s_mutex_init = True\<rparr>"

text \<open>A file whose data was last written at second 0 and whose mode was changed at second 10.\<close>

definition inode_chmod :: inode where
  "inode_chmod =
     \<lparr>i_ctime = \<lparr>tv_sec = 10, tv_nsec = 0\<rparr>,
      i_mtime = \<lparr>tv_sec = 0, tv_nsec = 0\<rparr>,
      i_xattr_user = Map.empty\<rparr>"

text \<open>Both throttle flags set; coalescing off.\<close>

definition sebi_wbnice :: ext4_ext_sb_info where
  "sebi_wbnice = \<lparr>s_opt = 5, s_delay_update_time = 0, s_wb_enable = 1, s_mutex_init = True\<rparr>"

text \<open>A file that carries the attribute \<open>user.wbnice\<close> with the given text.\<close>

definition inode_wbnice :: "string \<Rightarrow> inode" where
  "inode_wbnice v =
     \<lparr>i_ctime = \<lparr>tv_sec = 0, tv_nsec = 0\<rparr>,
      i_mtime = \<lparr>tv_sec = 0, tv_nsec = 0\<rparr>,
      i_xattr_user = [''wbnice'' \<mapsto> v]\<rparr>"

text \<open>A configuration with nothing set, as it is before the first mount.\<close>

definition sebi_zero :: ext4_ext_sb_info where
  "sebi_zero = \<lparr>s_opt = 0, s_delay_update_time = 0, s_wb_enable = 0, s_mutex_init = False\<rparr>"

text \<open>
  The descriptor of \<open>delay_update_time\<close>, mode 0644, for a structure of 16 bytes that
  holds \<open>s_opt\<close> in its first four bytes and \<open>s_delay_update_time\<close> in the next four.
\<close>

definition ext4_ext_attr_delay_update_time :: ext4_ext_attr where
  "ext4_ext_attr_delay_update_time =
     \<lparr>ea_name = ''delay_update_time'', ea_mode = 420, ea_offset = 4, ea_len = 4,
      ea_opts = 2\<rparr>"

definition sebi_bytes_zero :: "u8 list" where
  "sebi_bytes_zero = replicate 16 0"

section \<open>Properties of the timestamp policy\<close>

lemma sint_small:
  fixes w :: "64 word"
  assumes "w < 1000000000"
  shows "sint w = uint w" "0 \<le> sint w" "sint w < 1000000000"
proof -
  have u: "uint w < 1000000000" using assms by (simp add: word_less_def)
  have "sint w = signed_take_bit 63 (uint w)" by (simp add: sint_uint)
  also have "\<dots> = uint w"
  proof (rule signed_take_bit_int_eq_self)
    show "- (2 ^ 63) \<le> uint w" by (rule order_trans[of _ 0]) simp_all
    show "uint w < 2 ^ 63" using u by simp
  qed
  finally show "sint w = uint w" .
  then show "0 \<le> sint w" "sint w < 1000000000" using u by simp_all
qed

lemma sdiv_bounds:
  fixes k :: int
  assumes "- 1000000000 < k" "k < 1000000000"
  shows "- 1000 < k sdiv 1000000" "k sdiv 1000000 < 1000"
    "(k sdiv 1000000 = 0) = (- 1000000 < k \<and> k < 1000000)"
    "k \<le> 0 \<Longrightarrow> k sdiv 1000000 \<le> 0"
  using assms by (auto simp: signed_divide_int_def sgn_if abs_if)

text \<open>Without overflow the signed reading of \<open>elapse\<close> is the difference in milliseconds.\<close>

lemma sint_elapse:
  assumes "timespec_valid old" "timespec_valid new"
  shows "sint (elapse old new) =
     (sint (tv_sec new) - sint (tv_sec old)) * 1000 +
     (sint (tv_nsec new) - sint (tv_nsec old)) sdiv 1000000"
proof -
  let ?a = "sint (tv_sec new)" and ?b = "sint (tv_sec old)"
  let ?c = "sint (tv_nsec new)" and ?d = "sint (tv_nsec old)"
  have c: "0 \<le> ?c" "?c < 1000000000" and d: "0 \<le> ?d" "?d < 1000000000"
    using assms sint_small[of "tv_nsec new"] sint_small[of "tv_nsec old"]
    by (simp_all add: timespec_valid_def)
  have ab: "- (2 ^ 51) \<le> ?a" "?a \<le> 2 ^ 51" "- (2 ^ 51) \<le> ?b" "?b \<le> 2 ^ 51"
    using assms by (simp_all add: timespec_valid_def)
  have n: "sint (tv_nsec new - tv_nsec old) = ?c - ?d"
    unfolding sint_word_diff using c d by (intro signed_take_bit_int_eq_self) simp_all
  have q: "- 1000 < (?c - ?d) sdiv 1000000" "(?c - ?d) sdiv 1000000 < 1000"
    using sdiv_bounds(1,2)[of "?c - ?d"] c d by simp_all
  have m: "sint (NSEC_PER_MSEC) = 1000000" by (simp add: NSEC_PER_MSEC_def)
  have l: "sint (long_div (tv_nsec new - tv_nsec old) NSEC_PER_MSEC) = (?c - ?d) sdiv 1000000"
    unfolding long_div_def n m sint_sbintrunc' using q
    by (intro signed_take_bit_int_eq_self) simp_all
  have s: "sint (tv_sec new - tv_sec old) = ?a - ?b"
    unfolding sint_word_diff using ab by (intro signed_take_bit_int_eq_self) simp_all
  have k: "sint MSEC_PER_SEC = 1000" by (simp add: MSEC_PER_SEC_def)
  have p: "sint ((tv_sec new - tv_sec old) * MSEC_PER_SEC) = (?a - ?b) * 1000"
    unfolding sint_word_mult s k using ab by (intro signed_take_bit_int_eq_self) simp_all
  show ?thesis
    unfolding elapse_def sint_word_add p l using ab q
    by (intro signed_take_bit_int_eq_self) simp_all
qed

text \<open>
  A requested timestamp earlier than the stored one: the signed difference is at most 0,
  and it is 0 only within the same second, less than a millisecond back.
\<close>

lemma elapse_before:
  assumes "timespec_valid old" "timespec_valid new" "timespec_before new old"
  shows "sint (elapse old new) \<le> 0"
    and "(elapse old new = 0) =
         (tv_sec new = tv_sec old \<and> \<not> tv_nsec new + 1000000 \<le> tv_nsec old)"
proof -
  let ?a = "sint (tv_sec new)" and ?b = "sint (tv_sec old)"
  let ?c = "sint (tv_nsec new)" and ?d = "sint (tv_nsec old)"
  have c: "0 \<le> ?c" "?c < 1000000000" "?c = uint (tv_nsec new)"
    and d: "0 \<le> ?d" "?d < 1000000000" "?d = uint (tv_nsec old)"
    using assms sint_small[of "tv_nsec new"] sint_small[of "tv_nsec old"]
    by (simp_all add: timespec_valid_def)
  have e: "sint (elapse old new) = (?a - ?b) * 1000 + (?c - ?d) sdiv 1000000"
    using assms by (simp add: sint_elapse)
  have q: "- 1000 < (?c - ?d) sdiv 1000000" "(?c - ?d) sdiv 1000000 < 1000"
    "((?c - ?d) sdiv 1000000 = 0) = (- 1000000 < ?c - ?d \<and> ?c - ?d < 1000000)"
    using sdiv_bounds(1,2,3)[of "?c - ?d"] c d by simp_all
  have z: "(elapse old new = 0) = (sint (elapse old new) = 0)"
    by (simp add: signed_eq_0_iff)
  have secs: "(tv_sec new = tv_sec old) = (?a = ?b)"
    by (auto simp: signed_word_eqI)
  have plus: "uint (tv_nsec new + 1000000) = ?c + 1000000"
    using c by (simp add: uint_word_ariths)
  have cmp: "(tv_nsec new + 1000000 \<le> tv_nsec old) = (?c + 1000000 \<le> ?d)"
    by (simp add: word_le_def plus d(3))
  have cs: "?a < ?b \<or> (?a = ?b \<and> ?c < ?d)"
    using assms(3) c d by (auto simp: timespec_before_def word_sless_alt word_less_def)
  show "sint (elapse old new) \<le> 0"
  proof (cases "?a < ?b")
    case True
    then have "(?a - ?b) * 1000 \<le> - 1000" by simp
    then show ?thesis unfolding e using q(2) by linarith
  next
    case False
    then have eq: "?a = ?b" "?c < ?d" using cs by simp_all
    then have "(?c - ?d) sdiv 1000000 \<le> 0"
      using sdiv_bounds(4)[of "?c - ?d"] c d by simp
    then show ?thesis using e eq by simp
  qed
  show "(elapse old new = 0) =
         (tv_sec new = tv_sec old \<and> \<not> tv_nsec new + 1000000 \<le> tv_nsec old)"
  proof (cases "?a < ?b")
    case True
    then have "(?a - ?b) * 1000 \<le> - 1000" by simp
    then have "sint (elapse old new) < 0" unfolding e using q(2) by linarith
    then show ?thesis unfolding z secs using True by simp
  next
    case False
    then have eq: "?a = ?b" "?c < ?d" using cs by simp_all
    then show ?thesis unfolding z e secs cmp using q(3) by auto
  qed
qed

lemma neg_big:
  fixes e :: "64 word"
  assumes "sint e < 0"
  shows "2 ^ 63 \<le> uint e"
proof (rule ccontr)
  assume "\<not> 2 ^ 63 \<le> uint e"
  then have lt: "uint e < 2 ^ 63" by simp
  have ge: "- (2 ^ 63) \<le> uint e"
    by (rule order_trans[of _ 0]) simp_all
  have "sint e = signed_take_bit 63 (uint e)" by (simp add: sint_uint)
  also have "\<dots> = uint e" using ge lt by (rule signed_take_bit_int_eq_self)
  finally show False using assms by simp
qed

lemma sint_eq_uint:
  fixes w :: "64 word"
  assumes "uint w < 2 ^ 63"
  shows "sint w = uint w"
proof -
  have "- (2 ^ 63) \<le> uint w" by (rule order_trans[of _ 0]) simp_all
  then have "signed_take_bit 63 (uint w) = uint w"
    using assms by (intro signed_take_bit_int_eq_self)
  then show ?thesis by (simp add: sint_uint)
qed

lemma nonneg_uint:
  fixes w :: "64 word"
  assumes "0 \<le>s w"
  shows "uint w < 2 ^ 63"
proof (rule ccontr)
  assume "\<not> uint w < 2 ^ 63"
  then have h: "2 ^ 63 \<le> uint w" by simp
  have u: "uint w < 2 ^ 64" using uint_lt2p[of w] by simp
  have "sint w = (uint w + 2 ^ 63) mod 2 ^ 64 - 2 ^ 63"
    using int_word_sint[of "uint w", where 'a=64] by simp
  moreover have "(uint w + 2 ^ 63) mod 2 ^ 64 = uint w - 2 ^ 63"
  proof -
    define k where "k = uint w - 2 ^ 63"
    have k: "0 \<le> k" "k < 2 ^ 64" using h u by (simp_all add: k_def)
    have m: "(2 :: int) ^ 64 = 2 ^ 63 + 2 ^ 63" by simp
    have "uint w + 2 ^ 63 = k + 2 ^ 64" unfolding k_def m by simp
    then have "(uint w + 2 ^ 63) mod 2 ^ 64 = (k + 2 ^ 64) mod 2 ^ 64" by (rule arg_cong)
    also have "\<dots> = k mod 2 ^ 64" by (rule mod_add_self2)
    also have "\<dots> = k" using k by (rule mod_pos_pos_trivial)
    finally show ?thesis by (simp only: k_def)
  qed
  ultimately have "sint w < 0" using u by simp
  then show False using assms by (simp add: word_sle_eq)
qed

lemma uint_ucast_delay: "uint (ucast (d :: 32 word) :: 64 word) = uint d"
proof -
  have "uint d < 2 ^ 32" using uint_lt2p[of d] by simp
  then have "uint d < 2 ^ 64" by simp
  then show ?thesis by (simp add: unsigned_ucast_eq take_bit_int_eq_self)
qed

text \<open>
  Read as \<open>unsigned long\<close>, a negative difference is at least \<open>2 ^ 63\<close>: it passes the
  test against every 32-bit delay.  Only the difference 0 fails it.
\<close>

lemma should_update_nonpos:
  assumes "sint (elapse old new) \<le> 0" "delay \<noteq> 0"
  shows "ext4_ext_should_update_time old new delay = (elapse old new \<noteq> 0)"
proof (cases "elapse old new = 0")
  case True
  have "uint delay \<noteq> 0" using assms(2) by (simp add: unsigned_eq_0_iff)
  then show ?thesis using True
    by (simp add: ext4_ext_should_update_time_def word_le_def uint_ucast_delay)
next
  case False
  then have "sint (elapse old new) \<noteq> 0" by (simp add: signed_eq_0_iff)
  then have "sint (elapse old new) < 0" using assms(1) by simp
  then have "2 ^ 63 \<le> uint (elapse old new)" by (rule neg_big)
  moreover have "uint delay < 2 ^ 32" using uint_lt2p[of delay] by simp
  ultimately show ?thesis using False
    by (simp add: ext4_ext_should_update_time_def word_le_def uint_ucast_delay)
qed

text \<open>
  The test of the code in terms of the integer \<open>elapsed_ms\<close>: a negative difference,
  read as \<open>unsigned long\<close>, passes the test like one that reaches the delay.
\<close>

lemma should_update_elapsed_ms:
  assumes "timespec_valid old" "timespec_valid new"
  shows "ext4_ext_should_update_time old new delay =
         (uint delay \<le> elapsed_ms old new \<or> elapsed_ms old new < 0)"
proof -
  have s: "sint (elapse old new) = elapsed_ms old new"
    using assms by (simp add: sint_elapse elapsed_ms_def)
  have d: "uint delay < 2 ^ 32" using uint_lt2p[of delay] by simp
  show ?thesis
  proof (cases "elapsed_ms old new < 0")
    case True
    then have "sint (elapse old new) < 0" using s by simp
    then have "2 ^ 63 \<le> uint (elapse old new)" by (rule neg_big)
    then show ?thesis using True d
      by (simp add: ext4_ext_should_update_time_def word_le_def uint_ucast_delay)
  next
    case False
    then have "0 \<le>s elapse old new" using s by (simp add: word_sle_eq)
    then have "sint (elapse old new) = uint (elapse old new)"
      by (intro sint_eq_uint nonneg_uint)
    then have "uint (elapse old new) = elapsed_ms old new" using s by simp
    then show ?thesis using False
      by (simp add: ext4_ext_should_update_time_def word_le_def uint_ucast_delay)
  qed
qed

lemmas eval_time =
  ext4_ext_update_time_def ext4_ext_should_update_time_def elapse_def long_div_def
  MSEC_PER_SEC_def NSEC_PER_MSEC_def signed_divide_int_def kernel_x86_64_def
  sebi_delay_def inode_chmod_def timespec_valid_def timespec_before_def

text \<open>
  C3.  The update is applied at once, whatever the stored and the requested timestamps
  are, when the coalescing flag is not set, when the delay is 0, when the update flags
  include the version bump, or when they include the access time.
\<close>

theorem ext4_ext_update_time_immediate:
  "s_opt sebi AND EXT4_EXT_OPT_DELAY_UPDATE_TIME K = 0 \<or>
   s_delay_update_time sebi = 0 \<or>
   flags AND S_VERSION K \<noteq> 0 \<or>
   flags AND S_ATIME K \<noteq> 0 \<Longrightarrow>
   ext4_ext_update_time K sebi ino tm flags"
  by (auto simp: ext4_ext_update_time_def Let_def)

text \<open>
  The version bump two milliseconds after the stored change time is applied, and the
  same request without the version flag is dropped.
\<close>

theorem ext4_ext_update_time_immediate_witness:
  "12 AND S_VERSION kernel_x86_64 \<noteq> (0 :: u32)
   \<and> ext4_ext_update_time kernel_x86_64 sebi_delay inode_chmod
        \<lparr>tv_sec = 10, tv_nsec = 2000000\<rparr> 12
   \<and> \<not> ext4_ext_update_time kernel_x86_64 sebi_delay inode_chmod
        \<lparr>tv_sec = 10, tv_nsec = 2000000\<rparr> 4"
proof -
  have v: "12 AND S_VERSION kernel_x86_64 \<noteq> (0 :: u32)"
    by (simp add: kernel_x86_64_def)
  have "ext4_ext_update_time kernel_x86_64 sebi_delay inode_chmod
        \<lparr>tv_sec = 10, tv_nsec = 2000000\<rparr> 12"
    using ext4_ext_update_time_immediate[of sebi_delay kernel_x86_64 12] v by simp
  moreover have "\<not> ext4_ext_update_time kernel_x86_64 sebi_delay inode_chmod
        \<lparr>tv_sec = 10, tv_nsec = 2000000\<rparr> 4"
    by (simp add: eval_time)
  ultimately show ?thesis using v by simp
qed

text \<open>
  C2, as stated, fails.  With both the change-time and the modify-time flag set, a
  request 100 ms after the stored change time fails the change-time test (the delay is
  1000 ms), and is applied all the same: the code goes on to the modify-time test, and
  the stored modify time is 10 seconds older.  And with the change-time flag alone, a
  request one second before the stored change time is applied although the elapsed
  milliseconds, \<open>-1000\<close>, are below the delay.
\<close>

theorem ext4_ext_update_time_ctime_counterexample:
  "s_opt sebi_delay AND EXT4_EXT_OPT_DELAY_UPDATE_TIME kernel_x86_64 \<noteq> 0
   \<and> s_delay_update_time sebi_delay = 1000
   \<and> 6 AND S_CTIME kernel_x86_64 \<noteq> (0 :: u32)
   \<and> 6 AND S_VERSION kernel_x86_64 = (0 :: u32)
   \<and> 6 AND S_ATIME kernel_x86_64 = (0 :: u32)
   \<and> elapsed_ms (i_ctime inode_chmod) \<lparr>tv_sec = 10, tv_nsec = 100000000\<rparr> = 100
   \<and> elapse (i_ctime inode_chmod) \<lparr>tv_sec = 10, tv_nsec = 100000000\<rparr> = 100
   \<and> \<not> ext4_ext_should_update_time (i_ctime inode_chmod)
          \<lparr>tv_sec = 10, tv_nsec = 100000000\<rparr> 1000
   \<and> ext4_ext_update_time kernel_x86_64 sebi_delay inode_chmod
        \<lparr>tv_sec = 10, tv_nsec = 100000000\<rparr> 6
   \<and> 4 AND S_CTIME kernel_x86_64 \<noteq> (0 :: u32)
   \<and> 4 AND S_MTIME kernel_x86_64 = (0 :: u32)
   \<and> 4 AND S_VERSION kernel_x86_64 = (0 :: u32)
   \<and> 4 AND S_ATIME kernel_x86_64 = (0 :: u32)
   \<and> elapsed_ms (i_ctime inode_chmod) \<lparr>tv_sec = 9, tv_nsec = 0\<rparr> = - 1000
   \<and> ext4_ext_update_time kernel_x86_64 sebi_delay inode_chmod \<lparr>tv_sec = 9, tv_nsec = 0\<rparr> 4"
  by (simp add: eval_time elapsed_ms_def)

text \<open>
  C2, amended.  For update flags that include the change time and neither the version
  bump nor the access time, with coalescing enabled and a delay above 0, and for
  timestamps as the kernel keeps them: the update is applied if and only if the
  elapsed milliseconds from the stored change time to the requested timestamp reach
  the delay or are negative, or the flags also include the modify time and the elapsed
  milliseconds from the stored modify time to the requested timestamp reach the delay
  or are negative.  The elapsed milliseconds are the integer of the spec's formula,
  \<open>elapsed_ms\<close>.
\<close>

theorem ext4_ext_update_time_ctime:
  assumes "s_opt sebi AND EXT4_EXT_OPT_DELAY_UPDATE_TIME K \<noteq> 0"
    and "s_delay_update_time sebi \<noteq> 0"
    and "flags AND S_VERSION K = 0" and "flags AND S_ATIME K = 0"
    and "flags AND S_CTIME K \<noteq> 0"
    and "timespec_valid tm" and "timespec_valid (i_ctime ino)"
    and "flags AND S_MTIME K \<noteq> 0 \<longrightarrow> timespec_valid (i_mtime ino)"
  shows "ext4_ext_update_time K sebi ino tm flags =
     (uint (s_delay_update_time sebi) \<le> elapsed_ms (i_ctime ino) tm \<or>
      elapsed_ms (i_ctime ino) tm < 0 \<or>
      (flags AND S_MTIME K \<noteq> 0 \<and>
       (uint (s_delay_update_time sebi) \<le> elapsed_ms (i_mtime ino) tm \<or>
        elapsed_ms (i_mtime ino) tm < 0)))"
proof -
  have c: "ext4_ext_should_update_time (i_ctime ino) tm (s_delay_update_time sebi) =
      (uint (s_delay_update_time sebi) \<le> elapsed_ms (i_ctime ino) tm \<or>
       elapsed_ms (i_ctime ino) tm < 0)"
    using assms(7,6) by (rule should_update_elapsed_ms)
  show ?thesis
  proof (cases "flags AND S_MTIME K \<noteq> 0")
    case True
    then have "timespec_valid (i_mtime ino)" using assms(8) by simp
    then have "ext4_ext_should_update_time (i_mtime ino) tm (s_delay_update_time sebi) =
      (uint (s_delay_update_time sebi) \<le> elapsed_ms (i_mtime ino) tm \<or>
       elapsed_ms (i_mtime ino) tm < 0)"
      using assms(6) by (rule should_update_elapsed_ms)
    then show ?thesis using assms(1-5) True c
      by (auto simp: ext4_ext_update_time_def Let_def)
  next
    case False
    then show ?thesis using assms(1-5) c
      by (auto simp: ext4_ext_update_time_def Let_def)
  qed
qed

text \<open>
  Both flags set, 100 ms after the stored change time and 10100 ms after the stored
  modify time, delay 1000 ms: applied, by the modify time.
\<close>

theorem ext4_ext_update_time_ctime_witness:
  "s_opt sebi_delay AND EXT4_EXT_OPT_DELAY_UPDATE_TIME kernel_x86_64 \<noteq> 0
   \<and> s_delay_update_time sebi_delay \<noteq> 0
   \<and> 6 AND S_VERSION kernel_x86_64 = (0 :: u32)
   \<and> 6 AND S_ATIME kernel_x86_64 = (0 :: u32)
   \<and> 6 AND S_CTIME kernel_x86_64 \<noteq> (0 :: u32)
   \<and> 6 AND S_MTIME kernel_x86_64 \<noteq> (0 :: u32)
   \<and> timespec_valid \<lparr>tv_sec = 10, tv_nsec = 100000000\<rparr>
   \<and> timespec_valid (i_ctime inode_chmod)
   \<and> timespec_valid (i_mtime inode_chmod)
   \<and> uint (s_delay_update_time sebi_delay) = 1000
   \<and> elapsed_ms (i_ctime inode_chmod) \<lparr>tv_sec = 10, tv_nsec = 100000000\<rparr> = 100
   \<and> elapsed_ms (i_mtime inode_chmod) \<lparr>tv_sec = 10, tv_nsec = 100000000\<rparr> = 10100
   \<and> ext4_ext_update_time kernel_x86_64 sebi_delay inode_chmod
        \<lparr>tv_sec = 10, tv_nsec = 100000000\<rparr> 6"
proof -
  have h: "s_opt sebi_delay AND EXT4_EXT_OPT_DELAY_UPDATE_TIME kernel_x86_64 \<noteq> 0"
    "s_delay_update_time sebi_delay \<noteq> 0"
    "6 AND S_VERSION kernel_x86_64 = (0 :: u32)"
    "6 AND S_ATIME kernel_x86_64 = (0 :: u32)"
    "6 AND S_CTIME kernel_x86_64 \<noteq> (0 :: u32)"
    "timespec_valid \<lparr>tv_sec = 10, tv_nsec = 100000000\<rparr>"
    "timespec_valid (i_ctime inode_chmod)"
    by (simp_all add: eval_time)
  have m: "timespec_valid (i_mtime inode_chmod)" "6 AND S_MTIME kernel_x86_64 \<noteq> (0 :: u32)"
    by (simp_all add: eval_time)
  then have hm: "6 AND S_MTIME kernel_x86_64 \<noteq> (0 :: u32) \<longrightarrow>
      timespec_valid (i_mtime inode_chmod)" by simp
  have g: "uint (s_delay_update_time sebi_delay) = 1000"
    "elapsed_ms (i_ctime inode_chmod) \<lparr>tv_sec = 10, tv_nsec = 100000000\<rparr> = 100"
    "elapsed_ms (i_mtime inode_chmod) \<lparr>tv_sec = 10, tv_nsec = 100000000\<rparr> = 10100"
    by (simp_all add: eval_time elapsed_ms_def)
  have "ext4_ext_update_time kernel_x86_64 sebi_delay inode_chmod
        \<lparr>tv_sec = 10, tv_nsec = 100000000\<rparr> 6"
    unfolding ext4_ext_update_time_ctime[OF h hm] g using m(2) by simp
  then show ?thesis using h m g by simp
qed

text \<open>
  C1, as stated, fails.  A change-time update whose requested timestamp lies one second
  before the stored one is not suppressed: the difference \<open>-1000\<close> is kept in an
  \<open>unsigned long\<close>, where it reads \<open>2 ^ 64 - 1000\<close> and passes the test against the
  delay.
\<close>

theorem ext4_ext_update_time_earlier_counterexample:
  "s_opt sebi_delay AND EXT4_EXT_OPT_DELAY_UPDATE_TIME kernel_x86_64 \<noteq> 0
   \<and> s_delay_update_time sebi_delay = 1000
   \<and> 4 AND S_CTIME kernel_x86_64 \<noteq> (0 :: u32)
   \<and> 4 AND S_MTIME kernel_x86_64 = (0 :: u32)
   \<and> 4 AND S_VERSION kernel_x86_64 = (0 :: u32)
   \<and> 4 AND S_ATIME kernel_x86_64 = (0 :: u32)
   \<and> timespec_before \<lparr>tv_sec = 9, tv_nsec = 0\<rparr> (i_ctime inode_chmod)
   \<and> elapse (i_ctime inode_chmod) \<lparr>tv_sec = 9, tv_nsec = 0\<rparr> = 0xFFFFFFFFFFFFFC18
   \<and> ext4_ext_should_update_time (i_ctime inode_chmod) \<lparr>tv_sec = 9, tv_nsec = 0\<rparr> 1000
   \<and> ext4_ext_update_time kernel_x86_64 sebi_delay inode_chmod \<lparr>tv_sec = 9, tv_nsec = 0\<rparr> 4"
  by (simp add: eval_time word_sless_alt)

text \<open>
  C1, amended.  With coalescing enabled and a delay above 0, for a change-time-only or a
  modify-time-only update whose requested timestamp is earlier than the stored one
  (both timestamps as the kernel keeps them), the elapsed value read as a signed number
  is negative or zero.  The code keeps it in an \<open>unsigned long\<close>, where a negative
  value is larger than every delay: the update is applied, unless the elapsed value is
  0, which is the case exactly when the two timestamps share the second and lie less
  than a millisecond apart; only then is the update suppressed.
\<close>

theorem ext4_ext_update_time_earlier:
  assumes "s_opt sebi AND EXT4_EXT_OPT_DELAY_UPDATE_TIME K \<noteq> 0"
    and "s_delay_update_time sebi \<noteq> 0"
    and "flags AND S_VERSION K = 0" and "flags AND S_ATIME K = 0"
    and "timespec_valid tm"
  shows "(flags AND S_CTIME K \<noteq> 0 \<and> flags AND S_MTIME K = 0 \<and>
          timespec_valid (i_ctime ino) \<and> timespec_before tm (i_ctime ino) \<longrightarrow>
            sint (elapse (i_ctime ino) tm) \<le> 0 \<and>
            ext4_ext_update_time K sebi ino tm flags = (elapse (i_ctime ino) tm \<noteq> 0) \<and>
            (elapse (i_ctime ino) tm = 0) =
              (tv_sec tm = tv_sec (i_ctime ino) \<and>
               \<not> tv_nsec tm + 1000000 \<le> tv_nsec (i_ctime ino))) \<and>
         (flags AND S_MTIME K \<noteq> 0 \<and> flags AND S_CTIME K = 0 \<and>
          timespec_valid (i_mtime ino) \<and> timespec_before tm (i_mtime ino) \<longrightarrow>
            sint (elapse (i_mtime ino) tm) \<le> 0 \<and>
            ext4_ext_update_time K sebi ino tm flags = (elapse (i_mtime ino) tm \<noteq> 0) \<and>
            (elapse (i_mtime ino) tm = 0) =
              (tv_sec tm = tv_sec (i_mtime ino) \<and>
               \<not> tv_nsec tm + 1000000 \<le> tv_nsec (i_mtime ino)))"
proof (intro conjI impI)
  assume h: "flags AND S_CTIME K \<noteq> 0 \<and> flags AND S_MTIME K = 0 \<and>
          timespec_valid (i_ctime ino) \<and> timespec_before tm (i_ctime ino)"
  then show le: "sint (elapse (i_ctime ino) tm) \<le> 0"
    using assms(5) by (simp add: elapse_before(1))
  show "ext4_ext_update_time K sebi ino tm flags = (elapse (i_ctime ino) tm \<noteq> 0)"
    using assms h should_update_nonpos[OF le assms(2)]
    by (simp add: ext4_ext_update_time_def)
  show "(elapse (i_ctime ino) tm = 0) =
      (tv_sec tm = tv_sec (i_ctime ino) \<and> \<not> tv_nsec tm + 1000000 \<le> tv_nsec (i_ctime ino))"
    using assms(5) h by (simp add: elapse_before(2))
next
  assume h: "flags AND S_MTIME K \<noteq> 0 \<and> flags AND S_CTIME K = 0 \<and>
          timespec_valid (i_mtime ino) \<and> timespec_before tm (i_mtime ino)"
  then show le: "sint (elapse (i_mtime ino) tm) \<le> 0"
    using assms(5) by (simp add: elapse_before(1))
  show "ext4_ext_update_time K sebi ino tm flags = (elapse (i_mtime ino) tm \<noteq> 0)"
    using assms h should_update_nonpos[OF le assms(2)]
    by (simp add: ext4_ext_update_time_def)
  show "(elapse (i_mtime ino) tm = 0) =
      (tv_sec tm = tv_sec (i_mtime ino) \<and> \<not> tv_nsec tm + 1000000 \<le> tv_nsec (i_mtime ino))"
    using assms(5) h by (simp add: elapse_before(2))
qed

theorem ext4_ext_update_time_earlier_witness:
  "s_opt sebi_delay AND EXT4_EXT_OPT_DELAY_UPDATE_TIME kernel_x86_64 \<noteq> 0
   \<and> s_delay_update_time sebi_delay \<noteq> 0
   \<and> 4 AND S_VERSION kernel_x86_64 = (0 :: u32)
   \<and> 4 AND S_ATIME kernel_x86_64 = (0 :: u32)
   \<and> 4 AND S_CTIME kernel_x86_64 \<noteq> (0 :: u32)
   \<and> 4 AND S_MTIME kernel_x86_64 = (0 :: u32)
   \<and> timespec_valid \<lparr>tv_sec = 9, tv_nsec = 0\<rparr>
   \<and> timespec_valid (i_ctime inode_chmod)
   \<and> timespec_before \<lparr>tv_sec = 9, tv_nsec = 0\<rparr> (i_ctime inode_chmod)
   \<and> sint (elapse (i_ctime inode_chmod) \<lparr>tv_sec = 9, tv_nsec = 0\<rparr>) \<le> 0
   \<and> elapse (i_ctime inode_chmod) \<lparr>tv_sec = 9, tv_nsec = 0\<rparr> \<noteq> 0
   \<and> ext4_ext_update_time kernel_x86_64 sebi_delay inode_chmod \<lparr>tv_sec = 9, tv_nsec = 0\<rparr> 4"
proof -
  have h: "s_opt sebi_delay AND EXT4_EXT_OPT_DELAY_UPDATE_TIME kernel_x86_64 \<noteq> 0"
    "s_delay_update_time sebi_delay \<noteq> 0"
    "4 AND S_VERSION kernel_x86_64 = (0 :: u32)"
    "4 AND S_ATIME kernel_x86_64 = (0 :: u32)"
    "timespec_valid \<lparr>tv_sec = 9, tv_nsec = 0\<rparr>"
    by (simp_all add: eval_time)
  have g: "4 AND S_CTIME kernel_x86_64 \<noteq> (0 :: u32)" "4 AND S_MTIME kernel_x86_64 = (0 :: u32)"
    "timespec_valid (i_ctime inode_chmod)"
    "timespec_before \<lparr>tv_sec = 9, tv_nsec = 0\<rparr> (i_ctime inode_chmod)"
    by (simp_all add: eval_time word_sless_alt)
  have n: "elapse (i_ctime inode_chmod) \<lparr>tv_sec = 9, tv_nsec = 0\<rparr> \<noteq> 0"
    by (simp add: eval_time)
  show ?thesis
    using ext4_ext_update_time_earlier[OF h, of inode_chmod] h g n by simp
qed

section \<open>Properties of the writeback throttle\<close>

declare fls.simps [simp del]

lemma fls_less: "n < 2 ^ fls n"
proof (induction n rule: fls.induct)
  case (1 n)
  show ?case
  proof (cases "n = 0")
    case True then show ?thesis by (simp add: fls.simps)
  next
    case False
    then have "n div 2 < 2 ^ fls (n div 2)" using 1 by simp
    then have "n < 2 * 2 ^ fls (n div 2)" by linarith
    then show ?thesis using False by (simp add: fls.simps[of n])
  qed
qed

lemma fls_le: "n < 2 ^ k \<Longrightarrow> fls n \<le> k"
proof (induction n arbitrary: k rule: fls.induct)
  case (1 n)
  show ?case
  proof (cases "n = 0")
    case True then show ?thesis by (simp add: fls.simps)
  next
    case False
    then obtain k' where k: "k = Suc k'" using 1(2) by (cases k) auto
    then have "n div 2 < 2 ^ k'" using 1(2) by auto
    then have "fls (n div 2) \<le> k'" using 1(1) False by simp
    then show ?thesis using False k by (simp add: fls.simps[of n])
  qed
qed

lemma fls_mono: "m \<le> n \<Longrightarrow> fls m \<le> fls n"
  using fls_le[of m "fls n"] fls_less[of n] by simp

lemma round_down_pow2: "round_down x (2 ^ j) = push_bit j (drop_bit j x)"
  unfolding round_down_def mask_eq_decr_exp[symmetric]
  by (rule bit_eqI) (auto simp: bit_simps)

lemma unat_round_down:
  "unat (round_down x (2 ^ j)) = unat x div 2 ^ j * 2 ^ j"
proof -
  have le: "unat x div 2 ^ j * 2 ^ j \<le> unat x" by simp
  have "unat x < 2 ^ 64" using unsigned_less[of x] by simp
  then have lt: "unat x div 2 ^ j * 2 ^ j < 2 ^ 64" using le by linarith
  have tb: "take_bit 64 (unat x) = unat x"
    using \<open>unat x < 2 ^ 64\<close> by (simp add: take_bit_nat_eq_self)
  have "unat (round_down x (2 ^ j)) = take_bit 64 (push_bit j (drop_bit j (unat x)))"
    by (simp add: round_down_pow2 unsigned_push_bit_eq unsigned_drop_bit_eq tb)
  also have "\<dots> = take_bit 64 (unat x div 2 ^ j * 2 ^ j)"
    by (simp add: push_bit_eq_mult drop_bit_eq_div mult.commute)
  also have "\<dots> = unat x div 2 ^ j * 2 ^ j"
    using lt by (simp add: take_bit_nat_eq_self)
  finally show ?thesis .
qed

lemma unat_pow2:
  assumes "j < 64"
  shows "unat (2 ^ j :: 64 word) = 2 ^ j"
proof -
  have lt: "(2 ^ j :: nat) < 2 ^ 64"
    using assms by (intro power_strict_increasing) simp_all
  have "unat (word_of_nat (2 ^ j) :: 64 word) = 2 ^ j mod 2 ^ LENGTH(64)"
    by (rule unat_of_nat)
  then show ?thesis using lt by simp
qed

lemma unat_roundup_pow_of_two:
  assumes "fls_long (n - 1) < 64"
  shows "unat (roundup_pow_of_two n) = 2 ^ fls_long (n - 1)"
  using assms by (simp add: roundup_pow_of_two_def push_bit_eq_mult unat_pow2)

lemma min_wb_pages:
  assumes "PAGE_SIZE K = 2 ^ k" "k \<le> 22"
  shows "EXT4_EXT_MIN_WB_PAGES K = 2 ^ (22 - k)"
proof -
  have "unat (EXT4_EXT_MIN_WB_PAGES K) = 2 ^ 22 div 2 ^ k"
    using assms by (simp add: EXT4_EXT_MIN_WB_PAGES_def unat_div unat_pow2)
  also have "\<dots> = 2 ^ (22 - k)"
    using assms(2) by (simp add: power_diff)
  also have "\<dots> = unat (2 ^ (22 - k) :: 64 word)" by (simp add: unat_pow2)
  finally show ?thesis by (simp only: word_unat_eq_iff)
qed

lemma uint_pow2:
  assumes "j < 64"
  shows "uint (2 ^ j :: 64 word) = 2 ^ j"
proof -
  have "unat (2 ^ j :: 64 word) = 2 ^ j" using assms by (rule unat_pow2)
  then have "int (unat (2 ^ j :: 64 word)) = int (2 ^ j)" by (rule arg_cong)
  then show ?thesis by simp
qed

lemma uint_round_down:
  "uint (round_down x (2 ^ j)) = uint x div 2 ^ j * 2 ^ j"
proof -
  have "int (unat (round_down x (2 ^ j))) = int (unat x div 2 ^ j * 2 ^ j)"
    by (rule arg_cong[OF unat_round_down])
  then show ?thesis by (simp add: zdiv_int)
qed

lemma uint_roundup_pow_of_two:
  assumes "fls_long (n - 1) < 64"
  shows "uint (roundup_pow_of_two n) = 2 ^ fls_long (n - 1)"
  using assms by (simp add: roundup_pow_of_two_def push_bit_eq_mult uint_pow2)

lemma uint_throttle:
  fixes nr :: "64 word"
  assumes "e < 64" "j < 64" "uint nr + 2 ^ j < 2 ^ 64"
  shows "uint (round_down (nr div 2 ^ e + 2 ^ j) (2 ^ j)) =
         (uint nr div 2 ^ e + 2 ^ j) div 2 ^ j * 2 ^ j"
proof -
  have d: "uint (nr div 2 ^ e) = uint nr div 2 ^ e"
    using assms(1) by (simp add: uint_div uint_pow2)
  have "uint nr div 2 ^ e \<le> uint nr div 1"
    by (rule zdiv_mono2) simp_all
  then have "uint nr div 2 ^ e \<le> uint nr" by simp
  then have lt: "uint nr div 2 ^ e + 2 ^ j < 2 ^ 64" using assms(3) by linarith
  have ge: "0 \<le> uint nr div 2 ^ e + (2 :: int) ^ j"
    by (simp add: pos_imp_zdiv_nonneg_iff)
  have "uint (nr div 2 ^ e + 2 ^ j) = (uint nr div 2 ^ e + 2 ^ j) mod 2 ^ 64"
    using assms(2) by (simp add: uint_word_ariths d uint_pow2)
  also have "\<dots> = uint nr div 2 ^ e + 2 ^ j"
    using ge lt by (rule mod_pos_pos_trivial)
  finally show ?thesis by (simp add: uint_round_down)
qed

lemma chunk_round:
  fixes q c :: int
  assumes "0 \<le> q" "0 < c"
  shows "c dvd (q + c) div c * c" "c \<le> (q + c) div c * c" "(q + c) div c * c \<le> q + c"
proof -
  show "c dvd (q + c) div c * c" by simp
  have "0 \<le> q div c"
    using assms by (simp add: pos_imp_zdiv_nonneg_iff)
  moreover have "(q + c) div c = q div c + 1"
    by (rule div_add_self2) (use assms(2) in simp)
  ultimately have "1 \<le> (q + c) div c" by simp
  then have "1 * c \<le> (q + c) div c * c"
    using assms(2) by (intro mult_right_mono) simp_all
  then show "c \<le> (q + c) div c * c" by simp
  have "(q + c) div c * c + (q + c) mod c = q + c" by (rule div_mult_mod_eq)
  moreover have "0 \<le> (q + c) mod c" using assms(2) by simp
  ultimately show "(q + c) div c * c \<le> q + c" by linarith
qed

lemma chunk_round_mono:
  fixes q q' c :: int
  assumes "q' \<le> q" "0 < c"
  shows "(q' + c) div c * c \<le> (q + c) div c * c"
proof -
  have "(q' + c) div c \<le> (q + c) div c"
    using assms by (intro zdiv_mono1) simp_all
  then show ?thesis using assms(2) by (intro mult_right_mono) simp_all
qed

lemma nice_clamped:
  fixes nice :: "64 word"
  assumes "\<not> nice \<le>s 0"
  shows "1 \<le> uint (if 255 <s nice then 255 else nice)"
    and "uint (if 255 <s nice then 255 else nice) \<le> 255"
proof -
  have pos: "0 < sint nice" using assms by (simp add: word_sle_eq)
  then have "0 \<le>s nice" by (simp add: word_sle_eq)
  then have "sint nice = uint nice" by (intro sint_eq_uint nonneg_uint)
  then show "1 \<le> uint (if 255 <s nice then 255 else nice)"
    and "uint (if 255 <s nice then 255 else nice) \<le> 255"
    using pos by (auto simp: word_sless_alt)
qed

lemma fls_long_nice:
  fixes n :: "64 word"
  assumes "1 \<le> uint n" "uint n \<le> 255"
  shows "fls_long (n - 1) \<le> 8" and "uint (n - 1) = uint n - 1"
proof -
  have "n \<noteq> 0" using assms(1) by auto
  then have "unat (n - 1) = unat n - 1" by (rule unat_minus_one)
  moreover have "0 < unat n" using \<open>n \<noteq> 0\<close> by (simp add: unat_gt_0)
  ultimately have "int (unat (n - 1)) = int (unat n) - 1" by linarith
  then show u: "uint (n - 1) = uint n - 1" by simp
  have "int (unat (n - 1)) = uint (n - 1)" by simp
  then have "int (unat (n - 1)) < int (2 ^ 8)" using u assms(2) by simp
  then have "unat (n - 1) < 2 ^ 8" by (simp only: of_nat_less_iff)
  then show "fls_long (n - 1) \<le> 8" unfolding fls_long_def by (rule fls_le)
qed

lemma roundup_pow_of_two_mono:
  fixes m n :: "64 word"
  assumes "1 \<le> uint m" "uint m \<le> uint n" "uint n \<le> 255"
  shows "fls_long (m - 1) \<le> fls_long (n - 1)"
    and "roundup_pow_of_two m \<le> roundup_pow_of_two n"
proof -
  have m: "fls_long (m - 1) \<le> 8" "uint (m - 1) = uint m - 1"
    using assms fls_long_nice[of m] by simp_all
  have n: "fls_long (n - 1) \<le> 8" "uint (n - 1) = uint n - 1"
    using assms fls_long_nice[of n] by simp_all
  have "uint (m - 1) \<le> uint (n - 1)" using assms(2) m(2) n(2) by simp
  then have "unat (m - 1) \<le> unat (n - 1)" by (simp add: word_le_nat_alt[symmetric] word_le_def)
  then show le: "fls_long (m - 1) \<le> fls_long (n - 1)"
    unfolding fls_long_def by (rule fls_mono)
  have "uint (roundup_pow_of_two m) = 2 ^ fls_long (m - 1)"
    using m(1) by (intro uint_roundup_pow_of_two) simp
  moreover have "uint (roundup_pow_of_two n) = 2 ^ fls_long (n - 1)"
    using n(1) by (intro uint_roundup_pow_of_two) simp
  moreover have "(2 :: int) ^ fls_long (m - 1) \<le> 2 ^ fls_long (n - 1)"
    using le by (intro power_increasing) simp_all
  ultimately show "roundup_pow_of_two m \<le> roundup_pow_of_two n"
    by (simp add: word_le_def)
qed

text \<open>
  For 1 to 255 the divisor is a power of two, at least \<open>n\<close> and less than twice \<open>n\<close>:
  the next power of two.
\<close>

lemma roundup_pow_of_two_least:
  fixes n :: "64 word"
  assumes "1 \<le> uint n" "uint n \<le> 255"
  shows "uint n \<le> uint (roundup_pow_of_two n)"
    and "uint (roundup_pow_of_two n) < 2 * uint n"
    and "\<exists>e. roundup_pow_of_two n = 2 ^ e"
proof -
  have e: "fls_long (n - 1) \<le> 8" and u: "uint (n - 1) = uint n - 1"
    using assms by (rule fls_long_nice)+
  have p: "uint (roundup_pow_of_two n) = 2 ^ fls_long (n - 1)"
    using e by (intro uint_roundup_pow_of_two) simp
  have "unat (n - 1) < 2 ^ fls (unat (n - 1))" by (rule fls_less)
  then have "int (unat (n - 1)) < int (2 ^ fls_long (n - 1))"
    unfolding fls_long_def by (simp only: of_nat_less_iff)
  then have "uint (n - 1) < 2 ^ fls_long (n - 1)" by simp
  then show "uint n \<le> uint (roundup_pow_of_two n)" using u p by simp
  show "\<exists>e. roundup_pow_of_two n = 2 ^ e"
    by (auto simp: roundup_pow_of_two_def push_bit_eq_mult)
  show "uint (roundup_pow_of_two n) < 2 * uint n"
  proof (cases "n - 1 = 0")
    case True
    then have "fls_long (n - 1) = 0" by (simp add: fls_long_def fls.simps)
    then show ?thesis using p assms(1) by simp
  next
    case False
    then have nz: "unat (n - 1) \<noteq> 0" by (simp add: unat_eq_0)
    have ge: "2 ^ (fls m - 1) \<le> m" if "m \<noteq> 0" for m
      using that
    proof (induction m rule: fls.induct)
      case (1 m)
      show ?case
      proof (cases "m div 2 = 0")
        case True
        then show ?thesis using 1(2) by (simp add: fls.simps[of m] fls.simps[of 0])
      next
        case False
        then have "2 ^ (fls (m div 2) - 1) \<le> m div 2" using 1 by simp
        moreover have "fls (m div 2) \<noteq> 0" using False by (simp add: fls.simps[of "m div 2"])
        ultimately have "2 ^ fls (m div 2) \<le> 2 * (m div 2)"
          by (cases "fls (m div 2)") simp_all
        then show ?thesis using 1(2) by (simp add: fls.simps[of m])
      qed
    qed
    have "2 ^ (fls (unat (n - 1)) - 1) \<le> unat (n - 1)" using nz by (rule ge)
    moreover have "fls (unat (n - 1)) \<noteq> 0" using nz by (simp add: fls.simps[of "unat (n - 1)"])
    ultimately have "2 ^ fls (unat (n - 1)) \<le> 2 * unat (n - 1)"
      by (cases "fls (unat (n - 1))") simp_all
    then have "int (2 ^ fls_long (n - 1)) \<le> int (2 * unat (n - 1))"
      unfolding fls_long_def by (simp only: of_nat_le_iff)
    then have "2 ^ fls_long (n - 1) \<le> 2 * uint (n - 1)" by simp
    then show ?thesis using p u by simp
  qed
qed

lemma limit_writeback_throttled:
  assumes "s_opt sebi AND EXT4_EXT_OPT_WB_NICE K \<noteq> 0" "s_wb_enable sebi \<noteq> 0"
    and "nr \<noteq> LONG_MAX"
    and "i_xattr_user ino ''wbnice'' = Some v" "v \<noteq> []" "length v < 256"
    and "\<not> simple_strtoul K (c_string v) \<le>s 0"
  shows "ext4_ext_limit_writeback K sebi ino nr =
     round_down
       (nr div roundup_pow_of_two
          (if 255 <s simple_strtoul K (c_string v) then 255
           else simple_strtoul K (c_string v)) +
        EXT4_EXT_MIN_WB_PAGES K)
       (EXT4_EXT_MIN_WB_PAGES K)"
  using assms by (simp add: ext4_ext_limit_writeback_def ext4_xattr_get_def Let_def)

lemma sint_LONG_MAX: "sint LONG_MAX = 2 ^ 63 - 1"
  by (simp add: LONG_MAX_def)

lemma limit_writeback_uint:
  assumes "s_opt sebi AND EXT4_EXT_OPT_WB_NICE K \<noteq> 0" "s_wb_enable sebi \<noteq> 0"
    and "nr \<noteq> LONG_MAX"
    and "i_xattr_user ino ''wbnice'' = Some v" "v \<noteq> []" "length v < 256"
    and "\<not> simple_strtoul K (c_string v) \<le>s 0"
    and "PAGE_SIZE K = 2 ^ k" "k \<le> 22"
    and "0 \<le>s nr" "sint nr + sint (EXT4_EXT_MIN_WB_PAGES K) \<le> sint LONG_MAX"
  defines "n \<equiv> (if 255 <s simple_strtoul K (c_string v) then 255
                  else simple_strtoul K (c_string v))"
  defines "r \<equiv> ext4_ext_limit_writeback K sebi ino nr"
  shows "sint r = (uint nr div 2 ^ fls_long (n - 1) + 2 ^ (22 - k)) div 2 ^ (22 - k) * 2 ^ (22 - k)"
    and "sint (EXT4_EXT_MIN_WB_PAGES K) = 2 ^ (22 - k)"
    and "sint nr = uint nr"
    and "roundup_pow_of_two n = 2 ^ fls_long (n - 1)"
    and "fls_long (n - 1) \<le> 8"
proof -
  let ?j = "22 - k"
  let ?e = "fls_long (n - 1)"
  have j: "?j < 64" by simp
  have C: "EXT4_EXT_MIN_WB_PAGES K = 2 ^ ?j" using assms(8,9) by (rule min_wb_pages)
  have "(2 :: int) ^ ?j \<le> 2 ^ 22" by (intro power_increasing) simp_all
  then have cs: "(2 :: int) ^ ?j < 2 ^ 63" by simp
  then show sC: "sint (EXT4_EXT_MIN_WB_PAGES K) = 2 ^ ?j"
    unfolding C using uint_pow2[OF j] by (simp add: sint_eq_uint)
  show snr: "sint nr = uint nr" using assms(10) by (intro sint_eq_uint nonneg_uint)
  have nb: "1 \<le> uint n" "uint n \<le> 255"
    unfolding n_def using nice_clamped[OF assms(7)] by simp_all
  then show e: "?e \<le> 8" by (rule fls_long_nice(1))
  then have e64: "?e < 64" by simp
  have "uint (roundup_pow_of_two n) = 2 ^ ?e" using e64 by (rule uint_roundup_pow_of_two)
  also have "\<dots> = uint (2 ^ ?e :: 64 word)" using uint_pow2[OF e64] by simp
  finally show p: "roundup_pow_of_two n = 2 ^ ?e" by (simp only: word_uint_eq_iff)
  have sum: "uint nr + 2 ^ ?j \<le> 2 ^ 63 - 1"
    using assms(11) unfolding sC snr sint_LONG_MAX .
  then have lt: "uint nr + 2 ^ ?j < 2 ^ 64" by simp
  have r: "r = round_down (nr div 2 ^ ?e + 2 ^ ?j) (2 ^ ?j)"
    unfolding r_def limit_writeback_throttled[OF assms(1-7)] n_def[symmetric] p C ..
  have ur: "uint r = (uint nr div 2 ^ ?e + 2 ^ ?j) div 2 ^ ?j * 2 ^ ?j"
    unfolding r using e64 j lt by (rule uint_throttle)
  have q0: "0 \<le> uint nr div 2 ^ ?e" by (simp add: pos_imp_zdiv_nonneg_iff)
  have "uint nr div 2 ^ ?e \<le> uint nr div 1" by (rule zdiv_mono2) simp_all
  then have q1: "uint nr div 2 ^ ?e \<le> uint nr" by simp
  have "uint r \<le> uint nr div 2 ^ ?e + 2 ^ ?j"
    unfolding ur using q0 by (intro chunk_round(3)) simp_all
  then have "uint r < 2 ^ 63" using q1 sum by linarith
  then have "sint r = uint r" by (rule sint_eq_uint)
  then show "sint r = (uint nr div 2 ^ ?e + 2 ^ ?j) div 2 ^ ?j * 2 ^ ?j" using ur by simp
qed

text \<open>A text that does not begin with a decimal digit is read as 0.\<close>

lemma digit_value_not_digit:
  assumes "\<not> isdigit c"
  shows "digit_value c = None \<or> (\<exists>v. digit_value c = Some v \<and> 10 \<le> v)"
  using assms by (auto simp: digit_value_def isdigit_def Let_def)

lemma lib_simple_strtoul_no_digit:
  assumes "case s of [] \<Rightarrow> True | c # _ \<Rightarrow> \<not> isdigit c"
  shows "lib_simple_strtoul s = 0"
proof (cases s)
  case Nil
  then show ?thesis
    by (simp add: lib_simple_strtoul_def strtoull_def parse_integer_fixup_radix_def)
next
  case (Cons c s')
  then have n: "\<not> isdigit c" using assms by simp
  then have "c \<noteq> CHR ''0''" by (auto simp: isdigit_def)
  then have f: "parse_integer_fixup_radix (c # s') = (10, 0)"
    by (auto simp: parse_integer_fixup_radix_def split: list.splits)
  have "parse_integer 10 (c # s') 0 0 = (0, 0)"
    using digit_value_not_digit[OF n] by auto
  then show ?thesis using Cons f by (simp add: lib_simple_strtoul_def strtoull_def)
qed

lemmas eval_wb =
  ext4_ext_limit_writeback_def ext4_xattr_get_def c_string_def roundup_pow_of_two_def
  fls_long_def fls.simps round_down_def EXT4_EXT_MIN_WB_PAGES_def kernel_x86_64_def
  sebi_wbnice_def inode_wbnice_def inode_chmod_def LONG_MAX_def
  lib_simple_strtoul_def strtoull_def parse_integer_fixup_radix_def digit_value_def
  word_sle_eq word_sless_alt

text \<open>
  C4.  For every hint and every configuration the budget \<open>LONG_MAX\<close>, the request of an
  explicit synchronisation, is returned unchanged.
\<close>

theorem ext4_ext_limit_writeback_unbounded:
  "ext4_ext_limit_writeback K sebi ino LONG_MAX = LONG_MAX"
  by (simp add: ext4_ext_limit_writeback_def)

text \<open>The same file and configuration throttle a budget of 100000 pages to 7168.\<close>

theorem ext4_ext_limit_writeback_unbounded_witness:
  "ext4_ext_limit_writeback kernel_x86_64 sebi_wbnice (inode_wbnice ''10'') LONG_MAX = LONG_MAX
   \<and> ext4_ext_limit_writeback kernel_x86_64 sebi_wbnice (inode_wbnice ''10'') 100000 = 7168"
proof -
  have "ext4_ext_limit_writeback kernel_x86_64 sebi_wbnice (inode_wbnice ''10'') 100000 = 7168"
    by (simp add: eval_wb)
  then show ?thesis
    using ext4_ext_limit_writeback_unbounded[of kernel_x86_64 sebi_wbnice "inode_wbnice ''10''"]
    by simp
qed

text \<open>
  C5, as stated, fails.  For the requested count \<open>LONG_MAX - 1\<close> the hint 1 gives the
  budget \<open>2 ^ 63\<close>, which is \<open>LONG_MIN\<close> as a \<open>long\<close>, and the hint 2 gives the larger
  budget \<open>2 ^ 62\<close>: adding the chunk overflows.  For the requested count \<open>-1\<close> the
  division is unsigned, and the hint 3 gives a larger budget than the hint 2.
\<close>

theorem ext4_ext_limit_writeback_monotone_counterexample:
  "s_opt sebi_wbnice AND EXT4_EXT_OPT_WB_NICE kernel_x86_64 \<noteq> 0
   \<and> s_wb_enable sebi_wbnice \<noteq> 0
   \<and> (0x7FFFFFFFFFFFFFFE :: s64) \<noteq> LONG_MAX
   \<and> simple_strtoul kernel_x86_64 (c_string ''1'') = 1
   \<and> simple_strtoul kernel_x86_64 (c_string ''2'') = 2
   \<and> simple_strtoul kernel_x86_64 (c_string ''3'') = 3
   \<and> ext4_ext_limit_writeback kernel_x86_64 sebi_wbnice (inode_wbnice ''1'')
        0x7FFFFFFFFFFFFFFE = 0x8000000000000000
   \<and> ext4_ext_limit_writeback kernel_x86_64 sebi_wbnice (inode_wbnice ''2'')
        0x7FFFFFFFFFFFFFFE = 0x4000000000000000
   \<and> \<not> ext4_ext_limit_writeback kernel_x86_64 sebi_wbnice (inode_wbnice ''2'')
          0x7FFFFFFFFFFFFFFE
        \<le>s ext4_ext_limit_writeback kernel_x86_64 sebi_wbnice (inode_wbnice ''1'')
          0x7FFFFFFFFFFFFFFE
   \<and> (- 1 :: s64) \<noteq> LONG_MAX
   \<and> ext4_ext_limit_writeback kernel_x86_64 sebi_wbnice (inode_wbnice ''2'') (- 1)
        = 0x8000000000000000
   \<and> ext4_ext_limit_writeback kernel_x86_64 sebi_wbnice (inode_wbnice ''3'') (- 1)
        = 0x4000000000000000
   \<and> \<not> ext4_ext_limit_writeback kernel_x86_64 sebi_wbnice (inode_wbnice ''3'') (- 1)
        \<le>s ext4_ext_limit_writeback kernel_x86_64 sebi_wbnice (inode_wbnice ''2'') (- 1)"
  by (simp add: eval_wb)

text \<open>
  C5, amended.  With throttling enabled, a page size that is a power of two of at most
  4 MiB, and a requested page count between 0 and \<open>LONG_MAX\<close> minus the chunk size: as
  the parsed hint \<open>nice\<close> ranges over \<open>1 .. 255\<close>, the divisor rounded up to a power of
  two does not decrease with \<open>nice\<close>, and the budget returned does not increase.
\<close>

theorem ext4_ext_limit_writeback_monotone:
  assumes "s_opt sebi AND EXT4_EXT_OPT_WB_NICE K \<noteq> 0" "s_wb_enable sebi \<noteq> 0"
    and "nr \<noteq> LONG_MAX"
    and "PAGE_SIZE K = 2 ^ k" "k \<le> 22"
    and "0 \<le>s nr" "sint nr + sint (EXT4_EXT_MIN_WB_PAGES K) \<le> sint LONG_MAX"
    and "i_xattr_user ino1 ''wbnice'' = Some v1" "v1 \<noteq> []" "length v1 < 256"
    and "i_xattr_user ino2 ''wbnice'' = Some v2" "v2 \<noteq> []" "length v2 < 256"
    and "simple_strtoul K (c_string v1) = nice1" "simple_strtoul K (c_string v2) = nice2"
    and "1 \<le>s nice1" "nice1 \<le>s nice2" "nice2 \<le>s 255"
  shows "roundup_pow_of_two nice1 \<le> roundup_pow_of_two nice2 \<and>
         ext4_ext_limit_writeback K sebi ino2 nr \<le>s ext4_ext_limit_writeback K sebi ino1 nr"
proof -
  have s: "1 \<le> sint nice1" "sint nice1 \<le> sint nice2" "sint nice2 \<le> 255"
    using assms(16-18) by (simp_all add: word_sle_eq)
  have p1: "\<not> simple_strtoul K (c_string v1) \<le>s 0"
    and p2: "\<not> simple_strtoul K (c_string v2) \<le>s 0"
    using s assms(14,15) by (simp_all add: word_sle_eq)
  have c1: "(if 255 <s simple_strtoul K (c_string v1) then 255
             else simple_strtoul K (c_string v1)) = nice1"
    and c2: "(if 255 <s simple_strtoul K (c_string v2) then 255
             else simple_strtoul K (c_string v2)) = nice2"
    using s assms(14,15) by (simp_all add: word_sless_alt)
  have n: "0 \<le>s nice1" "0 \<le>s nice2" using s by (simp_all add: word_sle_eq)
  have "sint nice1 = uint nice1" using n(1) by (intro sint_eq_uint nonneg_uint)
  moreover have "sint nice2 = uint nice2" using n(2) by (intro sint_eq_uint nonneg_uint)
  ultimately have u: "1 \<le> uint nice1" "uint nice1 \<le> uint nice2" "uint nice2 \<le> 255"
    using s by simp_all
  note m = roundup_pow_of_two_mono[OF u]
  note r1 = limit_writeback_uint[OF assms(1-3) assms(8-10) p1 assms(4-7), unfolded c1]
  note r2 = limit_writeback_uint[OF assms(1-3) assms(11-13) p2 assms(4-7), unfolded c2]
  let ?c = "(2 :: int) ^ (22 - k)"
  have "(2 :: int) ^ fls_long (nice1 - 1) \<le> 2 ^ fls_long (nice2 - 1)"
    using m(1) by (intro power_increasing) simp_all
  then have "uint nr div 2 ^ fls_long (nice2 - 1) \<le> uint nr div 2 ^ fls_long (nice1 - 1)"
    by (intro zdiv_mono2) simp_all
  then have "(uint nr div 2 ^ fls_long (nice2 - 1) + ?c) div ?c * ?c
           \<le> (uint nr div 2 ^ fls_long (nice1 - 1) + ?c) div ?c * ?c"
    by (rule chunk_round_mono) simp
  then have "sint (ext4_ext_limit_writeback K sebi ino2 nr)
           \<le> sint (ext4_ext_limit_writeback K sebi ino1 nr)"
    unfolding r1(1) r2(1) .
  then show ?thesis using m(2) by (simp add: word_sle_eq)
qed

text \<open>The hints 10 and 100 on 100000 pages: divisors 16 and 128, budgets 7168 and 1024.\<close>

theorem ext4_ext_limit_writeback_monotone_witness:
  "s_opt sebi_wbnice AND EXT4_EXT_OPT_WB_NICE kernel_x86_64 \<noteq> 0
   \<and> s_wb_enable sebi_wbnice \<noteq> 0
   \<and> (100000 :: s64) \<noteq> LONG_MAX
   \<and> PAGE_SIZE kernel_x86_64 = 2 ^ 12
   \<and> 0 \<le>s (100000 :: s64)
   \<and> sint (100000 :: s64) + sint (EXT4_EXT_MIN_WB_PAGES kernel_x86_64) \<le> sint LONG_MAX
   \<and> simple_strtoul kernel_x86_64 (c_string ''10'') = 10
   \<and> simple_strtoul kernel_x86_64 (c_string ''100'') = 100
   \<and> (1 :: s64) \<le>s 10 \<and> (10 :: s64) \<le>s 100 \<and> (100 :: s64) \<le>s 255
   \<and> roundup_pow_of_two 10 = 16 \<and> roundup_pow_of_two 100 = 128
   \<and> ext4_ext_limit_writeback kernel_x86_64 sebi_wbnice (inode_wbnice ''10'') 100000 = 7168
   \<and> ext4_ext_limit_writeback kernel_x86_64 sebi_wbnice (inode_wbnice ''100'') 100000 = 1024
   \<and> roundup_pow_of_two 10 \<le> roundup_pow_of_two 100
   \<and> ext4_ext_limit_writeback kernel_x86_64 sebi_wbnice (inode_wbnice ''100'') 100000
      \<le>s ext4_ext_limit_writeback kernel_x86_64 sebi_wbnice (inode_wbnice ''10'') 100000"
proof -
  have h: "s_opt sebi_wbnice AND EXT4_EXT_OPT_WB_NICE kernel_x86_64 \<noteq> 0"
    "s_wb_enable sebi_wbnice \<noteq> 0"
    "(100000 :: s64) \<noteq> LONG_MAX"
    "PAGE_SIZE kernel_x86_64 = 2 ^ 12" "(12 :: nat) \<le> 22"
    "0 \<le>s (100000 :: s64)"
    "sint (100000 :: s64) + sint (EXT4_EXT_MIN_WB_PAGES kernel_x86_64) \<le> sint LONG_MAX"
    "i_xattr_user (inode_wbnice ''10'') ''wbnice'' = Some ''10''"
    "''10'' \<noteq> []" "length ''10'' < 256"
    "i_xattr_user (inode_wbnice ''100'') ''wbnice'' = Some ''100''"
    "''100'' \<noteq> []" "length ''100'' < 256"
    "simple_strtoul kernel_x86_64 (c_string ''10'') = 10"
    "simple_strtoul kernel_x86_64 (c_string ''100'') = 100"
    "(1 :: s64) \<le>s 10" "(10 :: s64) \<le>s 100" "(100 :: s64) \<le>s 255"
    by (simp_all add: eval_wb)
  have e: "roundup_pow_of_two 10 = 16" "roundup_pow_of_two 100 = 128"
    "ext4_ext_limit_writeback kernel_x86_64 sebi_wbnice (inode_wbnice ''10'') 100000 = 7168"
    "ext4_ext_limit_writeback kernel_x86_64 sebi_wbnice (inode_wbnice ''100'') 100000 = 1024"
    by (simp_all add: eval_wb)
  have t: "roundup_pow_of_two 10 \<le> roundup_pow_of_two 100 \<and>
      ext4_ext_limit_writeback kernel_x86_64 sebi_wbnice (inode_wbnice ''100'') 100000
      \<le>s ext4_ext_limit_writeback kernel_x86_64 sebi_wbnice (inode_wbnice ''10'') 100000"
    by (rule ext4_ext_limit_writeback_monotone[OF h])
  show ?thesis
    by (intro conjI h(1-4) h(6,7) h(14-18) e conjunct1[OF t] conjunct2[OF t])
qed

text \<open>
  C6, as stated, fails.  With throttling active, the hint 1 and the non-negative
  requested count \<open>LONG_MAX - 1\<close>, adding the chunk of 1024 pages overflows \<open>long\<close>: the
  budget returned is \<open>2 ^ 63\<close>, a negative \<open>long\<close>.
\<close>

theorem ext4_ext_limit_writeback_chunk_counterexample:
  "s_opt sebi_wbnice AND EXT4_EXT_OPT_WB_NICE kernel_x86_64 \<noteq> 0
   \<and> s_wb_enable sebi_wbnice \<noteq> 0
   \<and> (0x7FFFFFFFFFFFFFFE :: s64) \<noteq> LONG_MAX
   \<and> 0 \<le>s (0x7FFFFFFFFFFFFFFE :: s64)
   \<and> i_xattr_user (inode_wbnice ''1'') ''wbnice'' = Some ''1''
   \<and> simple_strtoul kernel_x86_64 (c_string ''1'') = 1
   \<and> EXT4_EXT_MIN_WB_PAGES kernel_x86_64 = 1024
   \<and> ext4_ext_limit_writeback kernel_x86_64 sebi_wbnice (inode_wbnice ''1'')
        0x7FFFFFFFFFFFFFFE = 0x8000000000000000
   \<and> ext4_ext_limit_writeback kernel_x86_64 sebi_wbnice (inode_wbnice ''1'')
        0x7FFFFFFFFFFFFFFE <s 0"
  by (simp add: eval_wb)

text \<open>
  C6, amended.  Whenever throttling is active (both flags set, the requested count not
  \<open>LONG_MAX\<close>, a hint that parses to a positive \<open>nice\<close>, a page size that is a power of
  two of at most 4 MiB) and the requested page count lies between 0 and \<open>LONG_MAX\<close>
  minus the chunk size \<open>C\<close>, the budget returned is non-negative, at least \<open>C\<close>, and a
  multiple of \<open>C\<close>.
\<close>

theorem ext4_ext_limit_writeback_chunk:
  assumes "s_opt sebi AND EXT4_EXT_OPT_WB_NICE K \<noteq> 0" "s_wb_enable sebi \<noteq> 0"
    and "nr \<noteq> LONG_MAX"
    and "i_xattr_user ino ''wbnice'' = Some v" "v \<noteq> []" "length v < 256"
    and "\<not> simple_strtoul K (c_string v) \<le>s 0"
    and "PAGE_SIZE K = 2 ^ k" "k \<le> 22"
    and "0 \<le>s nr" "sint nr + sint (EXT4_EXT_MIN_WB_PAGES K) \<le> sint LONG_MAX"
  shows "0 \<le> sint (ext4_ext_limit_writeback K sebi ino nr) \<and>
         sint (EXT4_EXT_MIN_WB_PAGES K) \<le> sint (ext4_ext_limit_writeback K sebi ino nr) \<and>
         sint (EXT4_EXT_MIN_WB_PAGES K) dvd sint (ext4_ext_limit_writeback K sebi ino nr)"
proof -
  let ?n = "if 255 <s simple_strtoul K (c_string v) then 255 else simple_strtoul K (c_string v)"
  let ?q = "uint nr div 2 ^ fls_long (?n - 1)"
  let ?c = "(2 :: int) ^ (22 - k)"
  note u = limit_writeback_uint[OF assms]
  have q: "0 \<le> ?q" by (simp add: pos_imp_zdiv_nonneg_iff)
  have c: "0 < ?c" by simp
  have "?c \<le> (?q + ?c) div ?c * ?c" using q c by (rule chunk_round(2))
  moreover have "?c dvd (?q + ?c) div ?c * ?c" by simp
  ultimately show ?thesis unfolding u(1) u(2) using c by simp
qed

text \<open>The scenario of the spec: hint 10, 100000 pages, chunk 1024: the budget is 7168.\<close>

theorem ext4_ext_limit_writeback_chunk_witness:
  "s_opt sebi_wbnice AND EXT4_EXT_OPT_WB_NICE kernel_x86_64 \<noteq> 0
   \<and> s_wb_enable sebi_wbnice \<noteq> 0
   \<and> (100000 :: s64) \<noteq> LONG_MAX
   \<and> i_xattr_user (inode_wbnice ''10'') ''wbnice'' = Some ''10''
   \<and> \<not> simple_strtoul kernel_x86_64 (c_string ''10'') \<le>s 0
   \<and> PAGE_SIZE kernel_x86_64 = 2 ^ 12
   \<and> 0 \<le>s (100000 :: s64)
   \<and> sint (100000 :: s64) + sint (EXT4_EXT_MIN_WB_PAGES kernel_x86_64) \<le> sint LONG_MAX
   \<and> sint (EXT4_EXT_MIN_WB_PAGES kernel_x86_64) = 1024
   \<and> ext4_ext_limit_writeback kernel_x86_64 sebi_wbnice (inode_wbnice ''10'') 100000 = 7168
   \<and> (1024 :: int) dvd 7168"
proof -
  have h: "s_opt sebi_wbnice AND EXT4_EXT_OPT_WB_NICE kernel_x86_64 \<noteq> 0"
    "s_wb_enable sebi_wbnice \<noteq> 0"
    "(100000 :: s64) \<noteq> LONG_MAX"
    "i_xattr_user (inode_wbnice ''10'') ''wbnice'' = Some ''10''"
    "''10'' \<noteq> []" "length ''10'' < 256"
    "\<not> simple_strtoul kernel_x86_64 (c_string ''10'') \<le>s 0"
    "PAGE_SIZE kernel_x86_64 = 2 ^ 12" "(12 :: nat) \<le> 22"
    "0 \<le>s (100000 :: s64)"
    "sint (100000 :: s64) + sint (EXT4_EXT_MIN_WB_PAGES kernel_x86_64) \<le> sint LONG_MAX"
    by (simp_all add: eval_wb)
  have e: "sint (EXT4_EXT_MIN_WB_PAGES kernel_x86_64) = 1024"
    "ext4_ext_limit_writeback kernel_x86_64 sebi_wbnice (inode_wbnice ''10'') 100000 = 7168"
    by (simp_all add: eval_wb)
  show ?thesis
    using ext4_ext_limit_writeback_chunk[OF h] h e by simp
qed

text \<open>
  C7, as stated, fails.  The hints \<open>12abc\<close> and \<open>3.7\<close> are not integers (\<open>kstrtoul\<close>
  rejects both), yet the requested count of 100000 pages is not returned unchanged:
  \<open>simple_strtoul\<close> reads the digits at the front and ignores the rest, and the budget
  is throttled with \<open>nice\<close> 12 and 3.
\<close>

theorem ext4_ext_limit_writeback_fallback_counterexample:
  "s_opt sebi_wbnice AND EXT4_EXT_OPT_WB_NICE kernel_x86_64 \<noteq> 0
   \<and> s_wb_enable sebi_wbnice \<noteq> 0
   \<and> (100000 :: s64) \<noteq> LONG_MAX
   \<and> i_xattr_user (inode_wbnice ''12abc'') ''wbnice'' = Some ''12abc''
   \<and> kstrtoul kernel_x86_64 ''12abc'' = Inl EINVAL
   \<and> simple_strtoul kernel_x86_64 (c_string ''12abc'') = 12
   \<and> ext4_ext_limit_writeback kernel_x86_64 sebi_wbnice (inode_wbnice ''12abc'') 100000 = 7168
   \<and> i_xattr_user (inode_wbnice ''3.7'') ''wbnice'' = Some ''3.7''
   \<and> kstrtoul kernel_x86_64 ''3.7'' = Inl EINVAL
   \<and> simple_strtoul kernel_x86_64 (c_string ''3.7'') = 3
   \<and> ext4_ext_limit_writeback kernel_x86_64 sebi_wbnice (inode_wbnice ''3.7'') 100000 = 25600"
  by (simp add: eval_wb lib_kstrtoull_def Let_def)

text \<open>
  C7, amended.  \<open>ext4_ext_limit_writeback\<close> is a total function: it has no error result.
  With both throttle flags set and a requested count other than \<open>LONG_MAX\<close>, the
  requested count is returned unchanged when the attribute is absent, when it is empty
  or does not fit the buffer of 256 bytes with its final NUL, when its text does not
  begin with a decimal digit (\<open>simple_strtoul\<close> then reads 0), and when the number that
  \<open>simple_strtoul\<close> reads from the front of the text, reduced to 64 bits, is not positive
  as a \<open>long\<close>.  A number above 255 is treated as 255: the divisor is
  \<open>roundup_pow_of_two 255\<close>.
\<close>

theorem ext4_ext_limit_writeback_fallback:
  assumes "s_opt sebi AND EXT4_EXT_OPT_WB_NICE K \<noteq> 0" "s_wb_enable sebi \<noteq> 0"
    and "nr \<noteq> LONG_MAX"
  shows "(i_xattr_user ino ''wbnice'' = None \<longrightarrow>
            ext4_ext_limit_writeback K sebi ino nr = nr) \<and>
         (i_xattr_user ino ''wbnice'' = Some v \<and> (v = [] \<or> 256 \<le> length v) \<longrightarrow>
            ext4_ext_limit_writeback K sebi ino nr = nr) \<and>
         (i_xattr_user ino ''wbnice'' = Some v \<and> simple_strtoul K = lib_simple_strtoul \<and>
          (case c_string v of [] \<Rightarrow> True | c # _ \<Rightarrow> \<not> isdigit c) \<longrightarrow>
            ext4_ext_limit_writeback K sebi ino nr = nr) \<and>
         (i_xattr_user ino ''wbnice'' = Some v \<and> simple_strtoul K (c_string v) \<le>s 0 \<longrightarrow>
            ext4_ext_limit_writeback K sebi ino nr = nr) \<and>
         (i_xattr_user ino ''wbnice'' = Some v \<and> v \<noteq> [] \<and> length v < 256 \<and>
          255 <s simple_strtoul K (c_string v) \<longrightarrow>
            ext4_ext_limit_writeback K sebi ino nr =
              round_down (nr div roundup_pow_of_two 255 + EXT4_EXT_MIN_WB_PAGES K)
                (EXT4_EXT_MIN_WB_PAGES K))"
proof -
  have z: "ext4_ext_limit_writeback K sebi ino nr = nr"
    if "i_xattr_user ino ''wbnice'' = Some v" "simple_strtoul K (c_string v) \<le>s 0"
    using that
    by (auto simp: ext4_ext_limit_writeback_def ext4_xattr_get_def Let_def)
  have d: "simple_strtoul K (c_string v) \<le>s 0"
    if "simple_strtoul K = lib_simple_strtoul"
      "case c_string v of [] \<Rightarrow> True | c # _ \<Rightarrow> \<not> isdigit c"
    using that lib_simple_strtoul_no_digit[of "c_string v"] by (simp add: word_sle_eq)
  have rest: "(i_xattr_user ino ''wbnice'' = None \<longrightarrow>
            ext4_ext_limit_writeback K sebi ino nr = nr) \<and>
         (i_xattr_user ino ''wbnice'' = Some v \<and> (v = [] \<or> 256 \<le> length v) \<longrightarrow>
            ext4_ext_limit_writeback K sebi ino nr = nr) \<and>
         (i_xattr_user ino ''wbnice'' = Some v \<and> v \<noteq> [] \<and> length v < 256 \<and>
          255 <s simple_strtoul K (c_string v) \<longrightarrow>
            ext4_ext_limit_writeback K sebi ino nr =
              round_down (nr div roundup_pow_of_two 255 + EXT4_EXT_MIN_WB_PAGES K)
                (EXT4_EXT_MIN_WB_PAGES K))"
    using assms
    by (auto simp: ext4_ext_limit_writeback_def ext4_xattr_get_def Let_def word_sle_eq
        word_sless_alt)
  show ?thesis using rest z d by blast
qed

text \<open>
  No attribute, an attribute that does not begin with a digit, and the hint 1000, which
  counts as 255: 1000000 pages divided by 256, plus the chunk, rounded down to the
  chunk.
\<close>

theorem ext4_ext_limit_writeback_fallback_witness:
  "s_opt sebi_wbnice AND EXT4_EXT_OPT_WB_NICE kernel_x86_64 \<noteq> 0
   \<and> s_wb_enable sebi_wbnice \<noteq> 0
   \<and> (1024 :: s64) \<noteq> LONG_MAX
   \<and> i_xattr_user inode_chmod ''wbnice'' = None
   \<and> ext4_ext_limit_writeback kernel_x86_64 sebi_wbnice inode_chmod 1024 = 1024
   \<and> i_xattr_user (inode_wbnice ''abc'') ''wbnice'' = Some ''abc''
   \<and> simple_strtoul kernel_x86_64 = lib_simple_strtoul
   \<and> c_string ''abc'' = ''abc'' \<and> \<not> isdigit (CHR ''a'')
   \<and> ext4_ext_limit_writeback kernel_x86_64 sebi_wbnice (inode_wbnice ''abc'') 1024 = 1024
   \<and> (1000000 :: s64) \<noteq> LONG_MAX
   \<and> i_xattr_user (inode_wbnice ''1000'') ''wbnice'' = Some ''1000''
   \<and> 255 <s simple_strtoul kernel_x86_64 (c_string ''1000'')
   \<and> ext4_ext_limit_writeback kernel_x86_64 sebi_wbnice (inode_wbnice ''1000'') 1000000 = 4096"
proof -
  have h: "s_opt sebi_wbnice AND EXT4_EXT_OPT_WB_NICE kernel_x86_64 \<noteq> 0"
    "s_wb_enable sebi_wbnice \<noteq> 0"
    by (simp_all add: eval_wb)
  have n: "(1024 :: s64) \<noteq> LONG_MAX" "(1000000 :: s64) \<noteq> LONG_MAX"
    by (simp_all add: LONG_MAX_def)
  have a: "i_xattr_user inode_chmod ''wbnice'' = None"
    "i_xattr_user (inode_wbnice ''abc'') ''wbnice'' = Some ''abc''"
    "simple_strtoul kernel_x86_64 = lib_simple_strtoul"
    "c_string ''abc'' = ''abc''" "\<not> isdigit (CHR ''a'')"
    "i_xattr_user (inode_wbnice ''1000'') ''wbnice'' = Some ''1000''"
    "255 <s simple_strtoul kernel_x86_64 (c_string ''1000'')"
    by (simp_all add: eval_wb isdigit_def)
  have r: "round_down (1000000 div roundup_pow_of_two 255 + EXT4_EXT_MIN_WB_PAGES kernel_x86_64)
             (EXT4_EXT_MIN_WB_PAGES kernel_x86_64) = 4096"
    by (simp add: eval_wb)
  show ?thesis
    using ext4_ext_limit_writeback_fallback[OF h n(1), of inode_chmod]
      ext4_ext_limit_writeback_fallback[OF h n(1), of "inode_wbnice ''abc''" "''abc''"]
      ext4_ext_limit_writeback_fallback[OF h n(2), of "inode_wbnice ''1000''" "''1000''"]
      h n a r
    by simp
qed

section \<open>Properties of the option parser\<close>

lemma handle_token_err:
  assumes "fst (match_token K p ext_tokens) = Opt_ext_err"
  shows "handle_token K opt p st =
     Inl (st\<lparr>ps_ret := Some EINVAL, ps_log := ps_log st @ [Not_supported opt]\<rparr>)"
  using assms by (cases "match_token K p ext_tokens") (simp add: handle_token_def)

lemma handle_token_known:
  assumes "fst (match_token K p ext_tokens) \<noteq> Opt_ext_err"
  shows "\<exists>st'. handle_token K opt p st = Inr st'"
  using assms
  by (cases "match_token K p ext_tokens")
     (auto simp: handle_token_def Let_def split: token.splits option.splits)

lemma parse_options_append:
  assumes "\<forall>t\<in>set pre. t \<noteq> [] \<longrightarrow> fst (match_token K t ext_tokens) \<noteq> Opt_ext_err"
  shows "parse_options K opt (pre @ rest) st =
         parse_options K opt rest (parse_options K opt pre st)"
  using assms
proof (induction pre arbitrary: st)
  case Nil
  then show ?case by simp
next
  case (Cons t pre)
  show ?case
  proof (cases "t = []")
    case True
    then show ?thesis using Cons by simp
  next
    case False
    then have "fst (match_token K t ext_tokens) \<noteq> Opt_ext_err" using Cons.prems by simp
    then obtain st' where "handle_token K opt t st = Inr st'"
      using handle_token_known by blast
    then show ?thesis using False Cons by simp
  qed
qed

lemma or_and_keep:
  fixes x y m :: "'a::len word"
  assumes "x AND m = m"
  shows "(x OR y) AND m = m"
proof -
  have "(x OR y) AND m = (x AND m) OR (y AND m)" by (simp add: bit.conj_disj_distrib2)
  also have "\<dots> = m OR (y AND m)" using assms by simp
  also have "\<dots> = m" by (rule bit_eqI) (auto simp: bit_simps)
  finally show ?thesis .
qed

lemma handle_token_ret:
  assumes "ps_ret st = Some EINVAL"
  shows "handle_token K opt p st = Inr st' \<Longrightarrow> ps_ret st' = Some EINVAL"
    and "handle_token K opt p st = Inl st' \<Longrightarrow> ps_ret st' = Some EINVAL"
  using assms
  by (cases "match_token K p ext_tokens";
      auto simp: handle_token_def Let_def split: token.splits option.splits)+

lemma handle_token_flag:
  assumes "s_opt (ps_sebi st) AND m = m"
  shows "handle_token K opt p st = Inr st' \<Longrightarrow> s_opt (ps_sebi st') AND m = m"
    and "handle_token K opt p st = Inl st' \<Longrightarrow> s_opt (ps_sebi st') AND m = m"
  using assms
  by (cases "match_token K p ext_tokens";
      auto simp: handle_token_def Let_def or_and_keep split: token.splits option.splits)+

lemma handle_token_delay:
  assumes "fst (match_token K p ext_tokens) \<noteq> Opt_ext_delay_update_time"
  shows "handle_token K opt p st = Inr st' \<Longrightarrow>
           s_delay_update_time (ps_sebi st') = s_delay_update_time (ps_sebi st)"
    and "handle_token K opt p st = Inl st' \<Longrightarrow>
           s_delay_update_time (ps_sebi st') = s_delay_update_time (ps_sebi st)"
  using assms
  by (cases "match_token K p ext_tokens";
      auto simp: handle_token_def Let_def split: token.splits option.splits)+

lemma parse_options_keeps_ret:
  "ps_ret st = Some EINVAL \<Longrightarrow> ps_ret (parse_options K opt ts st) = Some EINVAL"
proof (induction ts arbitrary: st)
  case Nil
  then show ?case by simp
next
  case (Cons t ts)
  show ?case
  proof (cases "handle_token K opt t st")
    case (Inl st')
    then show ?thesis using Cons handle_token_ret(2)[OF Cons.prems Inl] by simp
  next
    case (Inr st')
    then show ?thesis using Cons handle_token_ret(1)[OF Cons.prems Inr] by simp
  qed
qed

lemma parse_options_keeps_flag:
  "s_opt (ps_sebi st) AND m = m \<Longrightarrow> s_opt (ps_sebi (parse_options K opt ts st)) AND m = m"
proof (induction ts arbitrary: st)
  case Nil
  then show ?case by simp
next
  case (Cons t ts)
  show ?case
  proof (cases "handle_token K opt t st")
    case (Inl st')
    then show ?thesis using Cons handle_token_flag(2)[OF Cons.prems Inl] by simp
  next
    case (Inr st')
    then show ?thesis using Cons handle_token_flag(1)[OF Cons.prems Inr] by simp
  qed
qed

lemma parse_options_keeps_delay:
  assumes "\<forall>t\<in>set ts. t \<noteq> [] \<longrightarrow>
             fst (match_token K t ext_tokens) \<noteq> Opt_ext_delay_update_time"
  shows "s_delay_update_time (ps_sebi (parse_options K opt ts st)) =
         s_delay_update_time (ps_sebi st)"
  using assms
proof (induction ts arbitrary: st)
  case Nil
  then show ?case by simp
next
  case (Cons t ts)
  show ?case
  proof (cases "t = []")
    case True
    then show ?thesis using Cons by simp
  next
    case False
    then have n: "fst (match_token K t ext_tokens) \<noteq> Opt_ext_delay_update_time"
      using Cons.prems by simp
    show ?thesis
    proof (cases "handle_token K opt t st")
      case (Inl st')
      then show ?thesis using False handle_token_delay(2)[OF n Inl] by simp
    next
      case (Inr st')
      then have "s_delay_update_time (ps_sebi st') = s_delay_update_time (ps_sebi st)"
        using handle_token_delay(1)[OF n] by simp
      then show ?thesis using False Inr Cons by simp
    qed
  qed
qed

lemmas eval_opt =
  ext4_handle_ext_mount_opt_def mount_opt_begin_def handle_token_def ext_tokens_def
  kernel_x86_64_def match_one_def strtol_length_def strtoull_def
  parse_integer_fixup_radix_def digit_value_def lib_match_u64_def lib_kstrtoull_def
  Let_def

text \<open>
  The scenario \<open>delayupdatetime=500;wbnice\<close> at the first mount: coalescing with a
  delay of 500 ms, both throttle flags, no error.
\<close>

lemma ext4_handle_ext_mount_opt_scenario:
  "ext4_handle_ext_mount_opt kernel_x86_64 sebi_zero ''extend''
        ''delayupdatetime=500;wbnice'' False
     = \<lparr>ps_sebi = \<lparr>s_opt = 7, s_delay_update_time = 500, s_wb_enable = 1,
                    s_mutex_init = True\<rparr>,
        ps_ret = None, ps_log = []\<rparr>"
  by (simp add: eval_opt sebi_zero_def)

text \<open>
  C8.  An option string whose first unknown token is \<open>p\<close>: the call ends at \<open>p\<close> with
  \<open>-EINVAL\<close> and the message that the option is not supported.  The result is the state
  reached by the tokens before \<open>p\<close> with only the error and the message added: the
  tokens after \<open>p\<close> have no effect on it, and what the tokens before \<open>p\<close> changed in the
  configuration stays changed.
\<close>

theorem ext4_handle_ext_mount_opt_unknown:
  assumes "match_strdup K param = Some options"
    and "strsep_all options = pre @ p # post"
    and "\<forall>t\<in>set pre. t \<noteq> [] \<longrightarrow> fst (match_token K t ext_tokens) \<noteq> Opt_ext_err"
    and "p \<noteq> []" and "fst (match_token K p ext_tokens) = Opt_ext_err"
  shows "ext4_handle_ext_mount_opt K sebi opt param is_remount =
     (parse_options K opt pre (mount_opt_begin K sebi is_remount))
       \<lparr>ps_ret := Some EINVAL,
        ps_log := ps_log (parse_options K opt pre (mount_opt_begin K sebi is_remount)) @
                  [Not_supported opt]\<rparr>"
proof -
  let ?st = "mount_opt_begin K sebi is_remount"
  have "ext4_handle_ext_mount_opt K sebi opt param is_remount =
        parse_options K opt (pre @ p # post) ?st"
    using assms(1,2) by (simp add: ext4_handle_ext_mount_opt_def)
  also have "\<dots> = parse_options K opt (p # post) (parse_options K opt pre ?st)"
    using assms(3) by (rule parse_options_append)
  also have "\<dots> = (parse_options K opt pre ?st)
       \<lparr>ps_ret := Some EINVAL,
        ps_log := ps_log (parse_options K opt pre ?st) @ [Not_supported opt]\<rparr>"
    using assms(4) handle_token_err[OF assms(5)] by simp
  finally show ?thesis .
qed

text \<open>
  \<open>delayupdatetime=500;foo;wbnice\<close>: coalescing is on with 500 ms, and the throttle
  flags, which come after \<open>foo\<close>, are not set.
\<close>

theorem ext4_handle_ext_mount_opt_unknown_witness:
  "match_strdup kernel_x86_64 ''delayupdatetime=500;foo;wbnice''
     = Some ''delayupdatetime=500;foo;wbnice''
   \<and> strsep_all ''delayupdatetime=500;foo;wbnice''
     = [''delayupdatetime=500''] @ ''foo'' # [''wbnice'']
   \<and> fst (match_token kernel_x86_64 ''delayupdatetime=500'' ext_tokens)
     = Opt_ext_delay_update_time
   \<and> fst (match_token kernel_x86_64 ''foo'' ext_tokens) = Opt_ext_err
   \<and> ext4_handle_ext_mount_opt kernel_x86_64 sebi_zero ''extend''
        ''delayupdatetime=500;foo;wbnice'' False
     = \<lparr>ps_sebi = \<lparr>s_opt = 3, s_delay_update_time = 500, s_wb_enable = 0,
                    s_mutex_init = True\<rparr>,
        ps_ret = Some EINVAL,
        ps_log = [Not_supported ''extend'']\<rparr>"
proof -
  have h: "match_strdup kernel_x86_64 ''delayupdatetime=500;foo;wbnice''
       = Some ''delayupdatetime=500;foo;wbnice''"
    "strsep_all ''delayupdatetime=500;foo;wbnice''
       = [''delayupdatetime=500''] @ ''foo'' # [''wbnice'']"
    "\<forall>t\<in>set [''delayupdatetime=500'']. t \<noteq> [] \<longrightarrow>
       fst (match_token kernel_x86_64 t ext_tokens) \<noteq> Opt_ext_err"
    "''foo'' \<noteq> []"
    "fst (match_token kernel_x86_64 ''foo'' ext_tokens) = Opt_ext_err"
    by (simp_all add: eval_opt)
  have d: "fst (match_token kernel_x86_64 ''delayupdatetime=500'' ext_tokens)
     = Opt_ext_delay_update_time"
    by (simp add: eval_opt)
  have e: "parse_options kernel_x86_64 ''extend'' [''delayupdatetime=500'']
       (mount_opt_begin kernel_x86_64 sebi_zero False)
     = \<lparr>ps_sebi = \<lparr>s_opt = 3, s_delay_update_time = 500, s_wb_enable = 0,
                    s_mutex_init = True\<rparr>,
        ps_ret = None, ps_log = []\<rparr>"
    by (simp add: eval_opt sebi_zero_def)
  show ?thesis
    using ext4_handle_ext_mount_opt_unknown[OF h, of sebi_zero "''extend''" False] h(1,2,5) d
    unfolding e by simp
qed

text \<open>
  C10, as stated, fails.  The value \<open>abc\<close> does not parse as an integer, and the
  pattern \<open>delayupdatetime=%d\<close> does not match the token \<open>delayupdatetime=abc\<close>:
  \<open>match_token\<close> returns \<open>Opt_ext_err\<close>, and the call ends at this token.  The coalescing
  flag is not set, the delay is not the default, and the \<open>wbnice\<close> that follows is not
  applied.
\<close>

theorem ext4_handle_ext_mount_opt_invalid_value_counterexample:
  "match_strdup kernel_x86_64 ''delayupdatetime=abc;wbnice''
     = Some ''delayupdatetime=abc;wbnice''
   \<and> strsep_all ''delayupdatetime=abc;wbnice'' = [''delayupdatetime=abc'', ''wbnice'']
   \<and> match_u64 kernel_x86_64 ''abc'' = None
   \<and> match_token kernel_x86_64 ''delayupdatetime=abc'' ext_tokens = (Opt_ext_err, None)
   \<and> ext4_handle_ext_mount_opt kernel_x86_64 sebi_zero ''extend''
        ''delayupdatetime=abc;wbnice'' False
     = \<lparr>ps_sebi = \<lparr>s_opt = 1, s_delay_update_time = 0, s_wb_enable = 0,
                    s_mutex_init = True\<rparr>,
        ps_ret = Some EINVAL,
        ps_log = [Not_supported ''extend'']\<rparr>"
  by (simp add: eval_opt sebi_zero_def)

text \<open>
  C10, amended.  A token that the pattern \<open>delayupdatetime=%d\<close> matches (\<open>match_token\<close>
  returns \<open>Opt_ext_delay_update_time\<close> and the value) and whose value \<open>match_u64\<close>
  rejects, such as \<open>delayupdatetime=-5\<close>, does not end the loop: the coalescing flag is
  set, the delay is the default, \<open>ret\<close> is \<open>-EINVAL\<close>, and the tokens after it are handled
  from that state.  The call returns \<open>-EINVAL\<close>, the flag is still set in the end, and
  the delay is still the default when no later token is another \<open>delayupdatetime\<close>.
\<close>

theorem ext4_handle_ext_mount_opt_invalid_value:
  fixes K :: kernel and sebi :: ext4_ext_sb_info and opt :: string and is_remount :: bool
  assumes "match_strdup K param = Some options"
    and "strsep_all options = pre @ p # post"
    and "\<forall>t\<in>set pre. t \<noteq> [] \<longrightarrow> fst (match_token K t ext_tokens) \<noteq> Opt_ext_err"
    and "p \<noteq> []"
    and "match_token K p ext_tokens = (Opt_ext_delay_update_time, Some a)"
    and "match_u64 K a = None"
  defines "st1 \<equiv> parse_options K opt pre (mount_opt_begin K sebi is_remount)"
  defines "st2 \<equiv> st1\<lparr>ps_sebi := (ps_sebi st1)
                        \<lparr>s_opt := s_opt (ps_sebi st1) OR EXT4_EXT_OPT_DELAY_UPDATE_TIME K,
                         s_delay_update_time := EXT4_EXT_DEFAULT_DELAY_UPDATE_TIME K\<rparr>,
                      ps_ret := Some EINVAL\<rparr>"
  defines "r \<equiv> ext4_handle_ext_mount_opt K sebi opt param is_remount"
  shows "handle_token K opt p st1 = Inr st2 \<and>
         r = parse_options K opt post st2 \<and>
         ps_ret r = Some EINVAL \<and>
         s_opt (ps_sebi r) AND EXT4_EXT_OPT_DELAY_UPDATE_TIME K =
           EXT4_EXT_OPT_DELAY_UPDATE_TIME K \<and>
         ((\<forall>t\<in>set post. t \<noteq> [] \<longrightarrow>
              fst (match_token K t ext_tokens) \<noteq> Opt_ext_delay_update_time) \<longrightarrow>
          s_delay_update_time (ps_sebi r) = EXT4_EXT_DEFAULT_DELAY_UPDATE_TIME K)"
proof -
  have h: "handle_token K opt p st1 = Inr st2"
    using assms(5,6) by (simp add: handle_token_def st2_def Let_def)
  have "r = parse_options K opt (pre @ p # post) (mount_opt_begin K sebi is_remount)"
    using assms(1,2) by (simp add: r_def ext4_handle_ext_mount_opt_def)
  also have "\<dots> = parse_options K opt (p # post) st1"
    unfolding st1_def using assms(3) by (rule parse_options_append)
  also have "\<dots> = parse_options K opt post st2"
    using assms(4) h by simp
  finally have r: "r = parse_options K opt post st2" .
  have ret: "ps_ret st2 = Some EINVAL" by (simp add: st2_def)
  have "(s_opt (ps_sebi st1) OR EXT4_EXT_OPT_DELAY_UPDATE_TIME K)
          AND EXT4_EXT_OPT_DELAY_UPDATE_TIME K = EXT4_EXT_OPT_DELAY_UPDATE_TIME K"
    by (rule bit_eqI) (auto simp: bit_simps)
  then have flag: "s_opt (ps_sebi st2) AND EXT4_EXT_OPT_DELAY_UPDATE_TIME K =
      EXT4_EXT_OPT_DELAY_UPDATE_TIME K"
    by (simp add: st2_def)
  have del: "s_delay_update_time (ps_sebi st2) = EXT4_EXT_DEFAULT_DELAY_UPDATE_TIME K"
    by (simp add: st2_def)
  show ?thesis
    unfolding r
    using h parse_options_keeps_ret[OF ret] parse_options_keeps_flag[OF flag]
      parse_options_keeps_delay[of post K opt st2] del
    by simp
qed

text \<open>
  \<open>delayupdatetime=-5;wbnice\<close>: both throttle flags are set after the rejected value,
  the delay is the default, the call fails, and nothing is logged.
\<close>

theorem ext4_handle_ext_mount_opt_invalid_value_witness:
  "match_strdup kernel_x86_64 ''delayupdatetime=-5;wbnice'' = Some ''delayupdatetime=-5;wbnice''
   \<and> strsep_all ''delayupdatetime=-5;wbnice'' = [] @ ''delayupdatetime=-5'' # [''wbnice'']
   \<and> match_token kernel_x86_64 ''delayupdatetime=-5'' ext_tokens
     = (Opt_ext_delay_update_time, Some ''-5'')
   \<and> match_u64 kernel_x86_64 ''-5'' = None
   \<and> ext4_handle_ext_mount_opt kernel_x86_64 sebi_zero ''extend''
        ''delayupdatetime=-5;wbnice'' False
     = \<lparr>ps_sebi = \<lparr>s_opt = 7, s_delay_update_time = 1000, s_wb_enable = 1,
                    s_mutex_init = True\<rparr>,
        ps_ret = Some EINVAL,
        ps_log = []\<rparr>"
proof -
  have h: "match_strdup kernel_x86_64 ''delayupdatetime=-5;wbnice''
       = Some ''delayupdatetime=-5;wbnice''"
    "strsep_all ''delayupdatetime=-5;wbnice'' = [] @ ''delayupdatetime=-5'' # [''wbnice'']"
    "\<forall>t\<in>set []. t \<noteq> [] \<longrightarrow>
       fst (match_token kernel_x86_64 t ext_tokens) \<noteq> Opt_ext_err"
    "''delayupdatetime=-5'' \<noteq> []"
    "match_token kernel_x86_64 ''delayupdatetime=-5'' ext_tokens
       = (Opt_ext_delay_update_time, Some ''-5'')"
    "match_u64 kernel_x86_64 ''-5'' = None"
    by (simp_all add: eval_opt)
  have e: "parse_options kernel_x86_64 ''extend'' [''wbnice'']
       ((mount_opt_begin kernel_x86_64 sebi_zero False)
          \<lparr>ps_sebi := (ps_sebi (mount_opt_begin kernel_x86_64 sebi_zero False))
             \<lparr>s_opt := s_opt (ps_sebi (mount_opt_begin kernel_x86_64 sebi_zero False))
                        OR EXT4_EXT_OPT_DELAY_UPDATE_TIME kernel_x86_64,
              s_delay_update_time := EXT4_EXT_DEFAULT_DELAY_UPDATE_TIME kernel_x86_64\<rparr>,
           ps_ret := Some EINVAL\<rparr>)
     = \<lparr>ps_sebi = \<lparr>s_opt = 7, s_delay_update_time = 1000, s_wb_enable = 1,
                    s_mutex_init = True\<rparr>,
        ps_ret = Some EINVAL, ps_log = []\<rparr>"
    by (simp add: eval_opt sebi_zero_def)
  have t: "ext4_handle_ext_mount_opt kernel_x86_64 sebi_zero ''extend''
        ''delayupdatetime=-5;wbnice'' False
     = \<lparr>ps_sebi = \<lparr>s_opt = 7, s_delay_update_time = 1000, s_wb_enable = 1,
                    s_mutex_init = True\<rparr>,
        ps_ret = Some EINVAL, ps_log = []\<rparr>"
    using ext4_handle_ext_mount_opt_invalid_value[OF h, of "''extend''" sebi_zero False]
    unfolding parse_options.simps(1) e by simp
  show ?thesis by (intro conjI h(1,2,5,6) t)
qed

section \<open>Properties of the attribute files\<close>

declare decimal.simps [simp del]

lemma length_word_bytes_n: "length (word_bytes_n n w) = n"
  by (induction n arbitrary: w) simp_all

lemma take_word_bytes_n: "m \<le> n \<Longrightarrow> take m (word_bytes_n n w) = word_bytes_n m w"
proof (induction n arbitrary: m w)
  case 0
  then show ?case by simp
next
  case (Suc n)
  then show ?case by (cases m) simp_all
qed

lemma bytes_word_zeros: "bytes_word (replicate r 0) = 0"
  by (induction r) (simp_all add: bytes_word_def)

lemma bytes_word_Cons: "bytes_word (b # bs) = ucast b OR push_bit 8 (bytes_word bs)"
  by (simp add: bytes_word_def)

lemma low_byte_or:
  fixes w :: "64 word"
  shows "ucast (ucast w :: 8 word) OR push_bit 8 (take_bit (8 * m) (drop_bit 8 w)) =
         take_bit (8 * Suc m) w"
  by (rule bit_eqI) (auto simp: bit_simps)

lemma bytes_word_word_bytes_n:
  "bytes_word (word_bytes_n m w @ replicate r 0) = take_bit (8 * m) w"
proof (induction m arbitrary: w)
  case 0
  then show ?case by (simp add: bytes_word_zeros)
next
  case (Suc m)
  have "bytes_word (word_bytes_n (Suc m) w @ replicate r 0) =
        ucast (ucast w :: 8 word) OR
        push_bit 8 (bytes_word (word_bytes_n m (drop_bit 8 w) @ replicate r 0))"
    by (simp add: bytes_word_Cons)
  also have "\<dots> = ucast (ucast w :: 8 word) OR push_bit 8 (take_bit (8 * m) (drop_bit 8 w))"
    by (simp only: Suc.IH)
  also have "\<dots> = take_bit (8 * Suc m) w" by (rule low_byte_or)
  finally show ?case .
qed

lemma word_bytes_n_zero: "word_bytes_n n 0 = replicate n 0"
  by (induction n) simp_all

lemma word_bytes_zero: "word_bytes 0 = replicate 8 0"
  by (simp add: word_bytes_def word_bytes_n_zero)

lemma memcpy_front: "memcpy dst 0 src s n = take n (drop s src) @ drop n dst"
  by (simp add: memcpy_def)

lemma show_value:
  assumes "n \<le> 8" "off + n \<le> length mem"
  shows "bytes_word (memcpy (word_bytes 0) 0 (memcpy mem off (word_bytes X) 0 n) off n) =
         take_bit (8 * n) X"
proof -
  have t: "take n (word_bytes X) = word_bytes_n n X"
    using assms(1) by (simp add: word_bytes_def take_word_bytes_n)
  have l: "length (take off mem) = off" using assms(2) by simp
  have r: "take n (drop off (memcpy mem off (word_bytes X) 0 n)) = word_bytes_n n X"
    unfolding memcpy_def using l by (simp add: t length_word_bytes_n)
  have "memcpy (word_bytes 0) 0 (memcpy mem off (word_bytes X) 0 n) off n =
        take n (drop off (memcpy mem off (word_bytes X) 0 n)) @ drop n (replicate 8 0)"
    by (simp add: memcpy_front word_bytes_zero)
  also have "\<dots> = word_bytes_n n X @ replicate (8 - n) 0"
    unfolding r by simp
  finally show ?thesis by (simp add: bytes_word_word_bytes_n)
qed

lemmas eval_attr =
  ext4_ext_attr_store_def ext4_ext_attr_show_def snprintf_lu_def decimal.simps
  kernel_x86_64_def lib_kstrtoull_def lib_skip_spaces_def isspace_def
  parse_integer_fixup_radix_def digit_value_def
  ext4_ext_attr_delay_update_time_def sebi_bytes_zero_def Let_def

text \<open>
  C9.  For every descriptor whose field lies inside the structure and is at most as
  wide as an \<open>unsigned long\<close> (8 bytes), and every text that \<open>kstrtoul\<close> reads as a
  number \<open>X\<close> that fits \<open>ea_len\<close> bytes: the store succeeds and returns \<open>len\<close>, and the
  show that follows prints \<open>X\<close>.  The store writes the low \<open>ea_len\<close> bytes of \<open>X\<close>, the
  show reads them back into a value that starts as 0.  The mode of the descriptor
  plays no part in the two functions.
\<close>

theorem ext4_ext_attr_store_show:
  assumes "kstrtoul K (skip_spaces K buf) = Inr X"
    and "ea_len ea \<le> 8"
    and "ea_offset ea + ea_len ea \<le> length sebi_bytes"
    and "uint X < 2 ^ (8 * ea_len ea)"
  shows "snd (ext4_ext_attr_store K ea buf len sebi_bytes) = Inr len \<and>
         ext4_ext_attr_show K ea (fst (ext4_ext_attr_store K ea buf len sebi_bytes)) =
           snprintf_lu K X"
proof -
  have "uint (take_bit (8 * ea_len ea) X) = take_bit (8 * ea_len ea) (uint X)"
    by (rule unsigned_take_bit_eq)
  also have "\<dots> = uint X" using assms(4) by (simp add: take_bit_int_eq_self)
  finally have "take_bit (8 * ea_len ea) X = X" by (simp only: word_uint_eq_iff)
  then show ?thesis
    using assms(1) show_value[OF assms(2,3), of X]
    by (simp add: ext4_ext_attr_store_def ext4_ext_attr_show_def)
qed

text \<open>Writing \<open>500\<close> to \<open>delay_update_time\<close>, with a leading space, and reading it back.\<close>

theorem ext4_ext_attr_store_show_witness:
  "kstrtoul kernel_x86_64 (skip_spaces kernel_x86_64 '' 500'') = Inr 500
   \<and> ea_len ext4_ext_attr_delay_update_time \<le> 8
   \<and> ea_offset ext4_ext_attr_delay_update_time + ea_len ext4_ext_attr_delay_update_time
       \<le> length sebi_bytes_zero
   \<and> uint (500 :: u64) < 2 ^ (8 * ea_len ext4_ext_attr_delay_update_time)
   \<and> snprintf_lu kernel_x86_64 500 = [CHR ''5'', CHR ''0'', CHR ''0'', CHR 0x0A]
   \<and> ext4_ext_attr_show kernel_x86_64 ext4_ext_attr_delay_update_time
        (fst (ext4_ext_attr_store kernel_x86_64 ext4_ext_attr_delay_update_time
                '' 500'' 4 sebi_bytes_zero))
      = [CHR ''5'', CHR ''0'', CHR ''0'', CHR 0x0A]"
proof -
  have h: "kstrtoul kernel_x86_64 (skip_spaces kernel_x86_64 '' 500'') = Inr 500"
    "ea_len ext4_ext_attr_delay_update_time \<le> 8"
    "ea_offset ext4_ext_attr_delay_update_time + ea_len ext4_ext_attr_delay_update_time
       \<le> length sebi_bytes_zero"
    "uint (500 :: u64) < 2 ^ (8 * ea_len ext4_ext_attr_delay_update_time)"
    by (simp_all add: eval_attr)
  have p: "snprintf_lu kernel_x86_64 500 = [CHR ''5'', CHR ''0'', CHR ''0'', CHR 0x0A]"
    by (simp add: eval_attr)
  show ?thesis
    using ext4_ext_attr_store_show[OF h, of 4] h p by simp
qed

end
